theory Spec2Isabelle
  imports Complex_Main "HOL-Library.Sublist"
begin

section \<open>Values of the host language\<close>

text \<open>
  Strings are byte strings: the UTF-8 encoding of the source's string values. Integers
  that the source obtains from \<^verbatim>\<open>parseInt\<close>, \<^verbatim>\<open>Math.round\<close> and
  \<^verbatim>\<open>Date.now()\<close> are \<open>int\<close> and \<open>nat\<close>; the crop rectangle holds
  reals. A thrown value is either an \<^verbatim>\<open>Error\<close> object carrying its message or
  any other value (for which \<^verbatim>\<open>err instanceof Error\<close> is false), carrying its
  text.
\<close>

datatype thrown = ErrorObj string | NonError string

datatype 'a outcome = Resolved 'a | Rejected thrown

text \<open>
  A \<^verbatim>\<open>File\<close> object. The source compares files by reference
  (\<^verbatim>\<open>oldLayer.file !== newLayer.file\<close>), so a file carries its object identity.
\<close>

record File =
  fileRef :: nat
  fileBits :: string
  fileName :: string
  fileType :: string

text \<open>\<^verbatim>\<open>export interface Layer\<close>; the fields \<^verbatim>\<open>id\<close> and \<^verbatim>\<open>file\<close>
  are named \<open>id_layer\<close> and \<open>file_layer\<close>.\<close>

record Layer =
  id_layer :: string
  file_layer :: File
  objectUrl :: string
  name :: string
  opacity :: int
  isVisible :: bool

datatype Tab = Retouch | Faceswap | Adjust | Filters | CropTab | RemoveBg

datatype CropUnit = Px | Percent

text \<open>The \<^verbatim>\<open>Crop\<close> rectangle of the cropping widget.\<close>

record Crop =
  unit_crop :: CropUnit
  x_crop :: real
  y_crop :: real
  width_crop :: real
  height_crop :: real

type_synonym Hotspot = "int \<times> int"

section \<open>The outside of the component\<close>

text \<open>
  The five calls of the image transform service, with the arguments the handlers pass.
\<close>

datatype request =
    EditedImage File string Hotspot string bool real
  | FilteredImage File string string bool
  | AdjustedImage File string "File option" string bool
  | FaceSwapImage File File string bool
  | RemovedBgImage File string bool

text \<open>
  What \<^verbatim>\<open>new Image()\<close> reports once a source has loaded.
\<close>

record ImageInfo =
  naturalWidth :: nat
  naturalHeight :: nat
  width_img :: nat
  height_img :: nat

text \<open>
  A canvas is what the code has told it: its width and height and the
  \<^verbatim>\<open>drawImage\<close> calls in order, each with the image's source, the
  \<^verbatim>\<open>globalAlpha\<close> in force and its numeric arguments. A number is \<open>None\<close>
  when it is not finite (a division by zero). Rendering the calls to pixels and encoding
  them is the browser's: \<open>toDataURL\<close> in \<open>World\<close>.

  The width and the height of a canvas are unsigned integers. \<open>canvasDimension\<close> is
  what the canvas holds, and what \<^verbatim>\<open>canvas.width\<close> reads back, after a number
  has been assigned: a number that is not finite gives 0, any other is truncated
  towards zero and taken modulo \<open>2^32\<close>, and a result above \<open>2^31 - 1\<close> is
  replaced by the default of the attribute (300 for the width, 150 for the height).
\<close>

datatype DrawCall = DrawImage string real "real option list"

record Canvas =
  width_canvas :: nat
  height_canvas :: nat
  drawCalls :: "DrawCall list"

definition canvasDimension :: "nat \<Rightarrow> real option \<Rightarrow> nat" where
  "canvasDimension dflt v =
     (case v of
        None \<Rightarrow> 0
      | Some r \<Rightarrow>
          (let u = (if 0 \<le> r then \<lfloor>r\<rfloor> else \<lceil>r\<rceil>) mod 4294967296
           in if u \<le> 2147483647 then nat u else dflt))"

text \<open>
  What a handler reads from outside the component during one call: the clock, the
  browser's URL registry, the identity given to a newly constructed file, the base64
  decoder \<^verbatim>\<open>atob\<close> (which throws on malformed input), the transform service,
  image loading (\<open>None\<close>: the image does not load), whether a canvas yields a 2D
  context, and the encoding of a canvas.
\<close>

record World =
  now :: nat
  createObjectURL :: "File \<Rightarrow> string"
  newFileRef :: nat
  atob :: "string \<Rightarrow> thrown + string"
  service :: "request \<Rightarrow> string outcome"
  loadImage :: "string \<Rightarrow> ImageInfo option"
  getContext2d :: bool
  toDataURL :: "Canvas \<Rightarrow> string"

section \<open>The multi-layer editor: component state\<close>

text \<open>
  The \<^verbatim>\<open>useState\<close> cells of the \<^verbatim>\<open>App\<close> component, one field each.
  \<open>revokedUrls\<close> is not a cell of the component: it logs the object URLs handed to
  \<^verbatim>\<open>URL.revokeObjectURL\<close>, the one effect of the handlers outside the component.
\<close>

record AppState =
  history :: "Layer list list"
  historyIndex :: int
  layers :: "Layer list"
  activeLayerId :: "string option"
  prompt :: string
  additionalPrompt :: string
  isLoading :: bool
  error :: "string option"
  successMessage :: "string option"
  editHotspot :: "Hotspot option"
  displayHotspot :: "Hotspot option"
  activeTab :: Tab
  secondaryImage :: "File option"
  retouchScale :: int
  crop :: "Crop option"
  completedCrop :: "Crop option"
  aspect :: "real option"
  isComparing :: bool
  showExportModal :: bool
  fileToExport :: "File option"
  isTransparent :: bool
  flattenedImageForCropUrl :: "string option"
  revokedUrls :: "string list"

text \<open>
  The state of the first render. \<open>saved\<close> is what
  \<^verbatim>\<open>localStorage.getItem('transparentBackground')\<close> returns.
\<close>

definition initialState :: "string option \<Rightarrow> AppState" where
  "initialState saved =
     \<lparr>history = [], historyIndex = -1, layers = [], activeLayerId = None,
      prompt = [], additionalPrompt = [], isLoading = False, error = None,
      successMessage = None, editHotspot = None, displayHotspot = None,
      activeTab = Retouch, secondaryImage = None, retouchScale = 100,
      crop = None, completedCrop = None, aspect = None, isComparing = False,
      showExportModal = False, fileToExport = None,
      isTransparent = (saved = Some ''true''),
      flattenedImageForCropUrl = None, revokedUrls = []\<rparr>"

section \<open>History\<close>

text \<open>\<^verbatim>\<open>xs.slice(0, end)\<close> for an integer \<open>end\<close>: a negative end counts from the back.\<close>

definition slice0 :: "'a list \<Rightarrow> int \<Rightarrow> 'a list" where
  "slice0 xs e =
     (if e < 0 then take (nat (int (length xs) + e)) xs else take (nat e) xs)"

definition canUndo :: "AppState \<Rightarrow> bool" where
  "canUndo s \<longleftrightarrow> historyIndex s > 0"

definition canRedo :: "AppState \<Rightarrow> bool" where
  "canRedo s \<longleftrightarrow> historyIndex s < int (length (history s)) - 1"

text \<open>
  The URLs revoked by \<^verbatim>\<open>commitChanges\<close>: for each new layer, that of the current
  layer with the same id when its file is being replaced.
\<close>

definition replacedUrls :: "Layer list \<Rightarrow> Layer list \<Rightarrow> string list" where
  "replacedUrls old new =
     concat (map (\<lambda>newLayer.
       (case find (\<lambda>l. id_layer l = id_layer newLayer) old of
          Some oldLayer \<Rightarrow> if file_layer oldLayer \<noteq> file_layer newLayer then [objectUrl oldLayer] else []
        | None \<Rightarrow> [])) new)"

definition commitChanges :: "AppState \<Rightarrow> Layer list \<Rightarrow> bool \<Rightarrow> AppState" where
  "commitChanges s newLayers addToHistory =
     (let s1 = s\<lparr>revokedUrls := revokedUrls s @ replacedUrls (layers s) newLayers,
                 layers := newLayers\<rparr>;
          s2 = (if addToHistory
                then (let newHistory = slice0 (history s) (historyIndex s + 1) @ [newLayers]
                      in s1\<lparr>history := newHistory,
                            historyIndex := int (length newHistory) - 1\<rparr>)
                else s1)
      in s2\<lparr>crop := None, completedCrop := None, secondaryImage := None,
            additionalPrompt := [], retouchScale := 100\<rparr>)"

text \<open>Decimal digits of a number, as a template literal prints \<^verbatim>\<open>Date.now()\<close>.\<close>

function decimal :: "nat \<Rightarrow> string" where
  "decimal n =
     (if n < 10 then [char_of (48 + n)]
      else decimal (n div 10) @ [char_of (48 + n mod 10)])"
  by pat_completeness auto
termination
  by (relation "measure (\<lambda>n. n)") auto

declare decimal.simps [simp del]

section \<open>Messages\<close>

text \<open>
  The user-facing messages of the source are Thai text. Each constant is the byte string of
  one literal, with its meaning in the comment.
\<close>

definition msg_upload_ok :: string where
  \<comment> \<open>handleImageUpload: success toast (Image uploaded successfully!); the UTF-8 bytes of the source literal\<close>
  "msg_upload_ok =
   [CHR 0xE0, CHR 0xB8, CHR 0xAD, CHR 0xE0, CHR 0xB8, CHR 0xB1, CHR 0xE0, CHR 0xB8, CHR 0x9B,
    CHR 0xE0, CHR 0xB9, CHR 0x82, CHR 0xE0, CHR 0xB8, CHR 0xAB, CHR 0xE0, CHR 0xB8, CHR 0xA5,
    CHR 0xE0, CHR 0xB8, CHR 0x94, CHR 0xE0, CHR 0xB8, CHR 0xA3, CHR 0xE0, CHR 0xB8, CHR 0xB9,
    CHR 0xE0, CHR 0xB8, CHR 0x9B, CHR 0xE0, CHR 0xB8, CHR 0xA0, CHR 0xE0, CHR 0xB8, CHR 0xB2,
    CHR 0xE0, CHR 0xB8, CHR 0x9E, CHR 0xE0, CHR 0xB8, CHR 0xAA, CHR 0xE0, CHR 0xB8, CHR 0xB3,
    CHR 0xE0, CHR 0xB9, CHR 0x80, CHR 0xE0, CHR 0xB8, CHR 0xA3, CHR 0xE0, CHR 0xB9, CHR 0x87,
    CHR 0xE0, CHR 0xB8, CHR 0x88, CHR 0xE0, CHR 0xB9, CHR 0x81, CHR 0xE0, CHR 0xB8, CHR 0xA5,
    CHR 0xE0, CHR 0xB9, CHR 0x89, CHR 0xE0, CHR 0xB8, CHR 0xA7, CHR 0x21]"

definition msg_no_layer_edit :: string where
  \<comment> \<open>handleGenerate: no layer selected to edit; the UTF-8 bytes of the source literal\<close>
  "msg_no_layer_edit =
   [CHR 0xE0, CHR 0xB8, CHR 0xA2, CHR 0xE0, CHR 0xB8, CHR 0xB1, CHR 0xE0, CHR 0xB8, CHR 0x87,
    CHR 0xE0, CHR 0xB9, CHR 0x84, CHR 0xE0, CHR 0xB8, CHR 0xA1, CHR 0xE0, CHR 0xB9, CHR 0x88,
    CHR 0xE0, CHR 0xB9, CHR 0x84, CHR 0xE0, CHR 0xB8, CHR 0x94, CHR 0xE0, CHR 0xB9, CHR 0x89,
    CHR 0xE0, CHR 0xB9, CHR 0x80, CHR 0xE0, CHR 0xB8, CHR 0xA5, CHR 0xE0, CHR 0xB8, CHR 0xB7,
    CHR 0xE0, CHR 0xB8, CHR 0xAD, CHR 0xE0, CHR 0xB8, CHR 0x81, CHR 0xE0, CHR 0xB9, CHR 0x80,
    CHR 0xE0, CHR 0xB8, CHR 0xA5, CHR 0xE0, CHR 0xB9, CHR 0x80, CHR 0xE0, CHR 0xB8, CHR 0xA2,
    CHR 0xE0, CHR 0xB8, CHR 0xAD, CHR 0xE0, CHR 0xB8, CHR 0xA3, CHR 0xE0, CHR 0xB9, CHR 0x8C,
    CHR 0xE0, CHR 0xB9, CHR 0x80, CHR 0xE0, CHR 0xB8, CHR 0x9E, CHR 0xE0, CHR 0xB8, CHR 0xB7,
    CHR 0xE0, CHR 0xB9, CHR 0x88, CHR 0xE0, CHR 0xB8, CHR 0xAD, CHR 0xE0, CHR 0xB9, CHR 0x81,
    CHR 0xE0, CHR 0xB8, CHR 0x81, CHR 0xE0, CHR 0xB9, CHR 0x89, CHR 0xE0, CHR 0xB9, CHR 0x84,
    CHR 0xE0, CHR 0xB8, CHR 0x82]"

definition msg_no_prompt :: string where
  \<comment> \<open>handleGenerate: please describe your edit; the UTF-8 bytes of the source literal\<close>
  "msg_no_prompt =
   [CHR 0xE0, CHR 0xB8, CHR 0x81, CHR 0xE0, CHR 0xB8, CHR 0xA3, CHR 0xE0, CHR 0xB8, CHR 0xB8,
    CHR 0xE0, CHR 0xB8, CHR 0x93, CHR 0xE0, CHR 0xB8, CHR 0xB2, CHR 0xE0, CHR 0xB9, CHR 0x83,
    CHR 0xE0, CHR 0xB8, CHR 0xAA, CHR 0xE0, CHR 0xB9, CHR 0x88, CHR 0xE0, CHR 0xB8, CHR 0x84,
    CHR 0xE0, CHR 0xB8, CHR 0xB3, CHR 0xE0, CHR 0xB8, CHR 0xAD, CHR 0xE0, CHR 0xB8, CHR 0x98,
    CHR 0xE0, CHR 0xB8, CHR 0xB4, CHR 0xE0, CHR 0xB8, CHR 0x9A, CHR 0xE0, CHR 0xB8, CHR 0xB2,
    CHR 0xE0, CHR 0xB8, CHR 0xA2, CHR 0xE0, CHR 0xB8, CHR 0x81, CHR 0xE0, CHR 0xB8, CHR 0xB2,
    CHR 0xE0, CHR 0xB8, CHR 0xA3, CHR 0xE0, CHR 0xB9, CHR 0x81, CHR 0xE0, CHR 0xB8, CHR 0x81,
    CHR 0xE0, CHR 0xB9, CHR 0x89, CHR 0xE0, CHR 0xB9, CHR 0x84, CHR 0xE0, CHR 0xB8, CHR 0x82,
    CHR 0xE0, CHR 0xB8, CHR 0x82, CHR 0xE0, CHR 0xB8, CHR 0xAD, CHR 0xE0, CHR 0xB8, CHR 0x87,
    CHR 0xE0, CHR 0xB8, CHR 0x84, CHR 0xE0, CHR 0xB8, CHR 0xB8, CHR 0xE0, CHR 0xB8, CHR 0x93]"

definition msg_no_hotspot :: string where
  \<comment> \<open>handleGenerate: please click the image to pick the area; the UTF-8 bytes of the source literal\<close>
  "msg_no_hotspot =
   [CHR 0xE0, CHR 0xB8, CHR 0x81, CHR 0xE0, CHR 0xB8, CHR 0xA3, CHR 0xE0, CHR 0xB8, CHR 0xB8,
    CHR 0xE0, CHR 0xB8, CHR 0x93, CHR 0xE0, CHR 0xB8, CHR 0xB2, CHR 0xE0, CHR 0xB8, CHR 0x84,
    CHR 0xE0, CHR 0xB8, CHR 0xA5, CHR 0xE0, CHR 0xB8, CHR 0xB4, CHR 0xE0, CHR 0xB8, CHR 0x81,
    CHR 0xE0, CHR 0xB8, CHR 0x9A, CHR 0xE0, CHR 0xB8, CHR 0x99, CHR 0xE0, CHR 0xB8, CHR 0xA0,
    CHR 0xE0, CHR 0xB8, CHR 0xB2, CHR 0xE0, CHR 0xB8, CHR 0x9E, CHR 0xE0, CHR 0xB9, CHR 0x80,
    CHR 0xE0, CHR 0xB8, CHR 0x9E, CHR 0xE0, CHR 0xB8, CHR 0xB7, CHR 0xE0, CHR 0xB9, CHR 0x88,
    CHR 0xE0, CHR 0xB8, CHR 0xAD, CHR 0xE0, CHR 0xB9, CHR 0x80, CHR 0xE0, CHR 0xB8, CHR 0xA5,
    CHR 0xE0, CHR 0xB8, CHR 0xB7, CHR 0xE0, CHR 0xB8, CHR 0xAD, CHR 0xE0, CHR 0xB8, CHR 0x81,
    CHR 0xE0, CHR 0xB8, CHR 0x9E, CHR 0xE0, CHR 0xB8, CHR 0xB7, CHR 0xE0, CHR 0xB9, CHR 0x89,
    CHR 0xE0, CHR 0xB8, CHR 0x99, CHR 0xE0, CHR 0xB8, CHR 0x97, CHR 0xE0, CHR 0xB8, CHR 0xB5,
    CHR 0xE0, CHR 0xB9, CHR 0x88, CHR 0xE0, CHR 0xB8, CHR 0x97, CHR 0xE0, CHR 0xB8, CHR 0xB5,
    CHR 0xE0, CHR 0xB9, CHR 0x88, CHR 0xE0, CHR 0xB8, CHR 0x95, CHR 0xE0, CHR 0xB9, CHR 0x89,
    CHR 0xE0, CHR 0xB8, CHR 0xAD, CHR 0xE0, CHR 0xB8, CHR 0x87, CHR 0xE0, CHR 0xB8, CHR 0x81,
    CHR 0xE0, CHR 0xB8, CHR 0xB2, CHR 0xE0, CHR 0xB8, CHR 0xA3, CHR 0xE0, CHR 0xB9, CHR 0x81,
    CHR 0xE0, CHR 0xB8, CHR 0x81, CHR 0xE0, CHR 0xB9, CHR 0x89, CHR 0xE0, CHR 0xB9, CHR 0x84,
    CHR 0xE0, CHR 0xB8, CHR 0x82]"

definition msg_generate_failed :: string where
  \<comment> \<open>handleGenerate: image generation failed; the UTF-8 bytes of the source literal\<close>
  "msg_generate_failed =
   [CHR 0xE0, CHR 0xB8, CHR 0xAA, CHR 0xE0, CHR 0xB8, CHR 0xA3, CHR 0xE0, CHR 0xB9, CHR 0x89,
    CHR 0xE0, CHR 0xB8, CHR 0xB2, CHR 0xE0, CHR 0xB8, CHR 0x87, CHR 0xE0, CHR 0xB8, CHR 0xA3,
    CHR 0xE0, CHR 0xB8, CHR 0xB9, CHR 0xE0, CHR 0xB8, CHR 0x9B, CHR 0xE0, CHR 0xB8, CHR 0xA0,
    CHR 0xE0, CHR 0xB8, CHR 0xB2, CHR 0xE0, CHR 0xB8, CHR 0x9E, CHR 0xE0, CHR 0xB9, CHR 0x84,
    CHR 0xE0, CHR 0xB8, CHR 0xA1, CHR 0xE0, CHR 0xB9, CHR 0x88, CHR 0xE0, CHR 0xB8, CHR 0xAA,
    CHR 0xE0, CHR 0xB8, CHR 0xB3, CHR 0xE0, CHR 0xB9, CHR 0x80, CHR 0xE0, CHR 0xB8, CHR 0xA3,
    CHR 0xE0, CHR 0xB9, CHR 0x87, CHR 0xE0, CHR 0xB8, CHR 0x88]"

definition msg_no_layer_filter :: string where
  \<comment> \<open>handleApplyFilter: no layer selected; the UTF-8 bytes of the source literal\<close>
  "msg_no_layer_filter =
   [CHR 0xE0, CHR 0xB8, CHR 0xA2, CHR 0xE0, CHR 0xB8, CHR 0xB1, CHR 0xE0, CHR 0xB8, CHR 0x87,
    CHR 0xE0, CHR 0xB9, CHR 0x84, CHR 0xE0, CHR 0xB8, CHR 0xA1, CHR 0xE0, CHR 0xB9, CHR 0x88,
    CHR 0xE0, CHR 0xB9, CHR 0x84, CHR 0xE0, CHR 0xB8, CHR 0x94, CHR 0xE0, CHR 0xB9, CHR 0x89,
    CHR 0xE0, CHR 0xB9, CHR 0x80, CHR 0xE0, CHR 0xB8, CHR 0xA5, CHR 0xE0, CHR 0xB8, CHR 0xB7,
    CHR 0xE0, CHR 0xB8, CHR 0xAD, CHR 0xE0, CHR 0xB8, CHR 0x81, CHR 0xE0, CHR 0xB9, CHR 0x80,
    CHR 0xE0, CHR 0xB8, CHR 0xA5, CHR 0xE0, CHR 0xB9, CHR 0x80, CHR 0xE0, CHR 0xB8, CHR 0xA2,
    CHR 0xE0, CHR 0xB8, CHR 0xAD, CHR 0xE0, CHR 0xB8, CHR 0xA3, CHR 0xE0, CHR 0xB9, CHR 0x8C,
    CHR 0xE0, CHR 0xB9, CHR 0x80, CHR 0xE0, CHR 0xB8, CHR 0x9E, CHR 0xE0, CHR 0xB8, CHR 0xB7,
    CHR 0xE0, CHR 0xB9, CHR 0x88, CHR 0xE0, CHR 0xB8, CHR 0xAD, CHR 0xE0, CHR 0xB9, CHR 0x83,
    CHR 0xE0, CHR 0xB8, CHR 0x8A, CHR 0xE0, CHR 0xB9, CHR 0x89, CHR 0xE0, CHR 0xB8, CHR 0x9F,
    CHR 0xE0, CHR 0xB8, CHR 0xB4, CHR 0xE0, CHR 0xB8, CHR 0xA5, CHR 0xE0, CHR 0xB9, CHR 0x80,
    CHR 0xE0, CHR 0xB8, CHR 0x95, CHR 0xE0, CHR 0xB8, CHR 0xAD, CHR 0xE0, CHR 0xB8, CHR 0xA3,
    CHR 0xE0, CHR 0xB9, CHR 0x8C]"

definition msg_filter_failed :: string where
  \<comment> \<open>handleApplyFilter: applying the filter failed; the UTF-8 bytes of the source literal\<close>
  "msg_filter_failed =
   [CHR 0xE0, CHR 0xB9, CHR 0x83, CHR 0xE0, CHR 0xB8, CHR 0x8A, CHR 0xE0, CHR 0xB9, CHR 0x89,
    CHR 0xE0, CHR 0xB8, CHR 0x9F, CHR 0xE0, CHR 0xB8, CHR 0xB4, CHR 0xE0, CHR 0xB8, CHR 0xA5,
    CHR 0xE0, CHR 0xB9, CHR 0x80, CHR 0xE0, CHR 0xB8, CHR 0x95, CHR 0xE0, CHR 0xB8, CHR 0xAD,
    CHR 0xE0, CHR 0xB8, CHR 0xA3, CHR 0xE0, CHR 0xB9, CHR 0x8C, CHR 0xE0, CHR 0xB9, CHR 0x84,
    CHR 0xE0, CHR 0xB8, CHR 0xA1, CHR 0xE0, CHR 0xB9, CHR 0x88, CHR 0xE0, CHR 0xB8, CHR 0xAA,
    CHR 0xE0, CHR 0xB8, CHR 0xB3, CHR 0xE0, CHR 0xB9, CHR 0x80, CHR 0xE0, CHR 0xB8, CHR 0xA3,
    CHR 0xE0, CHR 0xB9, CHR 0x87, CHR 0xE0, CHR 0xB8, CHR 0x88]"

definition msg_no_layer_adjust :: string where
  \<comment> \<open>handleApplyAdjustment: no layer selected; the UTF-8 bytes of the source literal\<close>
  "msg_no_layer_adjust =
   [CHR 0xE0, CHR 0xB8, CHR 0xA2, CHR 0xE0, CHR 0xB8, CHR 0xB1, CHR 0xE0, CHR 0xB8, CHR 0x87,
    CHR 0xE0, CHR 0xB9, CHR 0x84, CHR 0xE0, CHR 0xB8, CHR 0xA1, CHR 0xE0, CHR 0xB9, CHR 0x88,
    CHR 0xE0, CHR 0xB9, CHR 0x84, CHR 0xE0, CHR 0xB8, CHR 0x94, CHR 0xE0, CHR 0xB9, CHR 0x89,
    CHR 0xE0, CHR 0xB9, CHR 0x80, CHR 0xE0, CHR 0xB8, CHR 0xA5, CHR 0xE0, CHR 0xB8, CHR 0xB7,
    CHR 0xE0, CHR 0xB8, CHR 0xAD, CHR 0xE0, CHR 0xB8, CHR 0x81, CHR 0xE0, CHR 0xB9, CHR 0x80,
    CHR 0xE0, CHR 0xB8, CHR 0xA5, CHR 0xE0, CHR 0xB9, CHR 0x80, CHR 0xE0, CHR 0xB8, CHR 0xA2,
    CHR 0xE0, CHR 0xB8, CHR 0xAD, CHR 0xE0, CHR 0xB8, CHR 0xA3, CHR 0xE0, CHR 0xB9, CHR 0x8C,
    CHR 0xE0, CHR 0xB9, CHR 0x80, CHR 0xE0, CHR 0xB8, CHR 0x9E, CHR 0xE0, CHR 0xB8, CHR 0xB7,
    CHR 0xE0, CHR 0xB9, CHR 0x88, CHR 0xE0, CHR 0xB8, CHR 0xAD, CHR 0xE0, CHR 0xB8, CHR 0x9B,
    CHR 0xE0, CHR 0xB8, CHR 0xA3, CHR 0xE0, CHR 0xB8, CHR 0xB1, CHR 0xE0, CHR 0xB8, CHR 0x9A,
    CHR 0xE0, CHR 0xB9, CHR 0x81, CHR 0xE0, CHR 0xB8, CHR 0x95, CHR 0xE0, CHR 0xB9, CHR 0x88,
    CHR 0xE0, CHR 0xB8, CHR 0x87]"

definition msg_adjust_failed :: string where
  \<comment> \<open>handleApplyAdjustment: adjustment failed; the UTF-8 bytes of the source literal\<close>
  "msg_adjust_failed =
   [CHR 0xE0, CHR 0xB8, CHR 0x9B, CHR 0xE0, CHR 0xB8, CHR 0xA3, CHR 0xE0, CHR 0xB8, CHR 0xB1,
    CHR 0xE0, CHR 0xB8, CHR 0x9A, CHR 0xE0, CHR 0xB9, CHR 0x81, CHR 0xE0, CHR 0xB8, CHR 0x95,
    CHR 0xE0, CHR 0xB9, CHR 0x88, CHR 0xE0, CHR 0xB8, CHR 0x87, CHR 0xE0, CHR 0xB9, CHR 0x84,
    CHR 0xE0, CHR 0xB8, CHR 0xA1, CHR 0xE0, CHR 0xB9, CHR 0x88, CHR 0xE0, CHR 0xB8, CHR 0xAA,
    CHR 0xE0, CHR 0xB8, CHR 0xB3, CHR 0xE0, CHR 0xB9, CHR 0x80, CHR 0xE0, CHR 0xB8, CHR 0xA3,
    CHR 0xE0, CHR 0xB9, CHR 0x87, CHR 0xE0, CHR 0xB8, CHR 0x88]"

definition msg_faceswap_missing :: string where
  \<comment> \<open>handleApplyFaceSwap: select a layer and upload a target image; the UTF-8 bytes of the source literal\<close>
  "msg_faceswap_missing =
   [CHR 0xE0, CHR 0xB8, CHR 0x81, CHR 0xE0, CHR 0xB8, CHR 0xA3, CHR 0xE0, CHR 0xB8, CHR 0xB8,
    CHR 0xE0, CHR 0xB8, CHR 0x93, CHR 0xE0, CHR 0xB8, CHR 0xB2, CHR 0xE0, CHR 0xB9, CHR 0x80,
    CHR 0xE0, CHR 0xB8, CHR 0xA5, CHR 0xE0, CHR 0xB8, CHR 0xB7, CHR 0xE0, CHR 0xB8, CHR 0xAD,
    CHR 0xE0, CHR 0xB8, CHR 0x81, CHR 0xE0, CHR 0xB9, CHR 0x80, CHR 0xE0, CHR 0xB8, CHR 0xA5,
    CHR 0xE0, CHR 0xB9, CHR 0x80, CHR 0xE0, CHR 0xB8, CHR 0xA2, CHR 0xE0, CHR 0xB8, CHR 0xAD,
    CHR 0xE0, CHR 0xB8, CHR 0xA3, CHR 0xE0, CHR 0xB9, CHR 0x8C, CHR 0xE0, CHR 0xB9, CHR 0x81,
    CHR 0xE0, CHR 0xB8, CHR 0xA5, CHR 0xE0, CHR 0xB8, CHR 0xB0, CHR 0xE0, CHR 0xB8, CHR 0xAD,
    CHR 0xE0, CHR 0xB8, CHR 0xB1, CHR 0xE0, CHR 0xB8, CHR 0x9B, CHR 0xE0, CHR 0xB9, CHR 0x82,
    CHR 0xE0, CHR 0xB8, CHR 0xAB, CHR 0xE0, CHR 0xB8, CHR 0xA5, CHR 0xE0, CHR 0xB8, CHR 0x94,
    CHR 0xE0, CHR 0xB8, CHR 0xA0, CHR 0xE0, CHR 0xB8, CHR 0xB2, CHR 0xE0, CHR 0xB8, CHR 0x9E,
    CHR 0xE0, CHR 0xB9, CHR 0x80, CHR 0xE0, CHR 0xB8, CHR 0x9B, CHR 0xE0, CHR 0xB9, CHR 0x89,
    CHR 0xE0, CHR 0xB8, CHR 0xB2, CHR 0xE0, CHR 0xB8, CHR 0xAB, CHR 0xE0, CHR 0xB8, CHR 0xA1,
    CHR 0xE0, CHR 0xB8, CHR 0xB2, CHR 0xE0, CHR 0xB8, CHR 0xA2, CHR 0xE0, CHR 0xB9, CHR 0x80,
    CHR 0xE0, CHR 0xB8, CHR 0x9E, CHR 0xE0, CHR 0xB8, CHR 0xB7, CHR 0xE0, CHR 0xB9, CHR 0x88,
    CHR 0xE0, CHR 0xB8, CHR 0xAD, CHR 0xE0, CHR 0xB8, CHR 0x97, CHR 0xE0, CHR 0xB8, CHR 0xB3,
    CHR 0xE0, CHR 0xB8, CHR 0x81, CHR 0xE0, CHR 0xB8, CHR 0xB2, CHR 0xE0, CHR 0xB8, CHR 0xA3,
    CHR 0xE0, CHR 0xB8, CHR 0xAA, CHR 0xE0, CHR 0xB8, CHR 0xA5, CHR 0xE0, CHR 0xB8, CHR 0xB1,
    CHR 0xE0, CHR 0xB8, CHR 0x9A, CHR 0xE0, CHR 0xB9, CHR 0x83, CHR 0xE0, CHR 0xB8, CHR 0x9A,
    CHR 0xE0, CHR 0xB8, CHR 0xAB, CHR 0xE0, CHR 0xB8, CHR 0x99, CHR 0xE0, CHR 0xB9, CHR 0x89,
    CHR 0xE0, CHR 0xB8, CHR 0xB2]"

definition msg_faceswap_failed :: string where
  \<comment> \<open>handleApplyFaceSwap: face swap failed (with the colon); the UTF-8 bytes of the source literal\<close>
  "msg_faceswap_failed =
   [CHR 0xE0, CHR 0xB8, CHR 0xAA, CHR 0xE0, CHR 0xB8, CHR 0xA5, CHR 0xE0, CHR 0xB8, CHR 0xB1,
    CHR 0xE0, CHR 0xB8, CHR 0x9A, CHR 0xE0, CHR 0xB9, CHR 0x83, CHR 0xE0, CHR 0xB8, CHR 0x9A,
    CHR 0xE0, CHR 0xB8, CHR 0xAB, CHR 0xE0, CHR 0xB8, CHR 0x99, CHR 0xE0, CHR 0xB9, CHR 0x89,
    CHR 0xE0, CHR 0xB8, CHR 0xB2, CHR 0xE0, CHR 0xB9, CHR 0x84, CHR 0xE0, CHR 0xB8, CHR 0xA1,
    CHR 0xE0, CHR 0xB9, CHR 0x88, CHR 0xE0, CHR 0xB8, CHR 0xAA, CHR 0xE0, CHR 0xB8, CHR 0xB3,
    CHR 0xE0, CHR 0xB9, CHR 0x80, CHR 0xE0, CHR 0xB8, CHR 0xA3, CHR 0xE0, CHR 0xB9, CHR 0x87,
    CHR 0xE0, CHR 0xB8, CHR 0x88, CHR 0x3A]"

definition msg_no_layer_removebg :: string where
  \<comment> \<open>handleRemoveBackground: no layer selected; the UTF-8 bytes of the source literal\<close>
  "msg_no_layer_removebg =
   [CHR 0xE0, CHR 0xB8, CHR 0xA2, CHR 0xE0, CHR 0xB8, CHR 0xB1, CHR 0xE0, CHR 0xB8, CHR 0x87,
    CHR 0xE0, CHR 0xB9, CHR 0x84, CHR 0xE0, CHR 0xB8, CHR 0xA1, CHR 0xE0, CHR 0xB9, CHR 0x88,
    CHR 0xE0, CHR 0xB9, CHR 0x84, CHR 0xE0, CHR 0xB8, CHR 0x94, CHR 0xE0, CHR 0xB9, CHR 0x89,
    CHR 0xE0, CHR 0xB9, CHR 0x80, CHR 0xE0, CHR 0xB8, CHR 0xA5, CHR 0xE0, CHR 0xB8, CHR 0xB7,
    CHR 0xE0, CHR 0xB8, CHR 0xAD, CHR 0xE0, CHR 0xB8, CHR 0x81, CHR 0xE0, CHR 0xB9, CHR 0x80,
    CHR 0xE0, CHR 0xB8, CHR 0xA5, CHR 0xE0, CHR 0xB9, CHR 0x80, CHR 0xE0, CHR 0xB8, CHR 0xA2,
    CHR 0xE0, CHR 0xB8, CHR 0xAD, CHR 0xE0, CHR 0xB8, CHR 0xA3, CHR 0xE0, CHR 0xB9, CHR 0x8C,
    CHR 0xE0, CHR 0xB9, CHR 0x80, CHR 0xE0, CHR 0xB8, CHR 0x9E, CHR 0xE0, CHR 0xB8, CHR 0xB7,
    CHR 0xE0, CHR 0xB9, CHR 0x88, CHR 0xE0, CHR 0xB8, CHR 0xAD, CHR 0xE0, CHR 0xB8, CHR 0xA5,
    CHR 0xE0, CHR 0xB8, CHR 0x9A, CHR 0xE0, CHR 0xB8, CHR 0x9E, CHR 0xE0, CHR 0xB8, CHR 0xB7,
    CHR 0xE0, CHR 0xB9, CHR 0x89, CHR 0xE0, CHR 0xB8, CHR 0x99, CHR 0xE0, CHR 0xB8, CHR 0xAB,
    CHR 0xE0, CHR 0xB8, CHR 0xA5, CHR 0xE0, CHR 0xB8, CHR 0xB1, CHR 0xE0, CHR 0xB8, CHR 0x87]"

definition msg_removebg_failed :: string where
  \<comment> \<open>handleRemoveBackground: background removal failed (with the colon); the UTF-8 bytes of the source literal\<close>
  "msg_removebg_failed =
   [CHR 0xE0, CHR 0xB8, CHR 0xA5, CHR 0xE0, CHR 0xB8, CHR 0x9A, CHR 0xE0, CHR 0xB8, CHR 0x9E,
    CHR 0xE0, CHR 0xB8, CHR 0xB7, CHR 0xE0, CHR 0xB9, CHR 0x89, CHR 0xE0, CHR 0xB8, CHR 0x99,
    CHR 0xE0, CHR 0xB8, CHR 0xAB, CHR 0xE0, CHR 0xB8, CHR 0xA5, CHR 0xE0, CHR 0xB8, CHR 0xB1,
    CHR 0xE0, CHR 0xB8, CHR 0x87, CHR 0xE0, CHR 0xB9, CHR 0x84, CHR 0xE0, CHR 0xB8, CHR 0xA1,
    CHR 0xE0, CHR 0xB9, CHR 0x88, CHR 0xE0, CHR 0xB8, CHR 0xAA, CHR 0xE0, CHR 0xB8, CHR 0xB3,
    CHR 0xE0, CHR 0xB9, CHR 0x80, CHR 0xE0, CHR 0xB8, CHR 0xA3, CHR 0xE0, CHR 0xB9, CHR 0x87,
    CHR 0xE0, CHR 0xB8, CHR 0x88, CHR 0x3A]"

definition msg_crop_select_first :: string where
  \<comment> \<open>handleApplyCrop: please select an area before cropping; the UTF-8 bytes of the source literal\<close>
  "msg_crop_select_first =
   [CHR 0xE0, CHR 0xB8, CHR 0x81, CHR 0xE0, CHR 0xB8, CHR 0xA3, CHR 0xE0, CHR 0xB8, CHR 0xB8,
    CHR 0xE0, CHR 0xB8, CHR 0x93, CHR 0xE0, CHR 0xB8, CHR 0xB2, CHR 0xE0, CHR 0xB9, CHR 0x80,
    CHR 0xE0, CHR 0xB8, CHR 0xA5, CHR 0xE0, CHR 0xB8, CHR 0xB7, CHR 0xE0, CHR 0xB8, CHR 0xAD,
    CHR 0xE0, CHR 0xB8, CHR 0x81, CHR 0xE0, CHR 0xB8, CHR 0x9E, CHR 0xE0, CHR 0xB8, CHR 0xB7,
    CHR 0xE0, CHR 0xB9, CHR 0x89, CHR 0xE0, CHR 0xB8, CHR 0x99, CHR 0xE0, CHR 0xB8, CHR 0x97,
    CHR 0xE0, CHR 0xB8, CHR 0xB5, CHR 0xE0, CHR 0xB9, CHR 0x88, CHR 0xE0, CHR 0xB8, CHR 0x81,
    CHR 0xE0, CHR 0xB9, CHR 0x88, CHR 0xE0, CHR 0xB8, CHR 0xAD, CHR 0xE0, CHR 0xB8, CHR 0x99,
    CHR 0xE0, CHR 0xB8, CHR 0x97, CHR 0xE0, CHR 0xB8, CHR 0xB3, CHR 0xE0, CHR 0xB8, CHR 0x81,
    CHR 0xE0, CHR 0xB8, CHR 0xB2, CHR 0xE0, CHR 0xB8, CHR 0xA3, CHR 0xE0, CHR 0xB8, CHR 0x95,
    CHR 0xE0, CHR 0xB8, CHR 0xB1, CHR 0xE0, CHR 0xB8, CHR 0x94, CHR 0xE0, CHR 0xB8, CHR 0xA0,
    CHR 0xE0, CHR 0xB8, CHR 0xB2, CHR 0xE0, CHR 0xB8, CHR 0x9E]"

definition msg_crop_failed :: string where
  \<comment> \<open>handleApplyCrop: cropping failed (with the colon); the UTF-8 bytes of the source literal\<close>
  "msg_crop_failed =
   [CHR 0xE0, CHR 0xB8, CHR 0x95, CHR 0xE0, CHR 0xB8, CHR 0xB1, CHR 0xE0, CHR 0xB8, CHR 0x94,
    CHR 0xE0, CHR 0xB8, CHR 0xA0, CHR 0xE0, CHR 0xB8, CHR 0xB2, CHR 0xE0, CHR 0xB8, CHR 0x9E,
    CHR 0xE0, CHR 0xB9, CHR 0x84, CHR 0xE0, CHR 0xB8, CHR 0xA1, CHR 0xE0, CHR 0xB9, CHR 0x88,
    CHR 0xE0, CHR 0xB8, CHR 0xAA, CHR 0xE0, CHR 0xB8, CHR 0xB3, CHR 0xE0, CHR 0xB9, CHR 0x80,
    CHR 0xE0, CHR 0xB8, CHR 0xA3, CHR 0xE0, CHR 0xB9, CHR 0x87, CHR 0xE0, CHR 0xB8, CHR 0x88,
    CHR 0x3A]"

definition msg_crop_select_first_flat :: string where
  \<comment> \<open>single-image handleApplyCrop: please select the area to crop first; the UTF-8 bytes of the source literal\<close>
  "msg_crop_select_first_flat =
   [CHR 0xE0, CHR 0xB8, CHR 0x81, CHR 0xE0, CHR 0xB8, CHR 0xA3, CHR 0xE0, CHR 0xB8, CHR 0xB8,
    CHR 0xE0, CHR 0xB8, CHR 0x93, CHR 0xE0, CHR 0xB8, CHR 0xB2, CHR 0xE0, CHR 0xB9, CHR 0x80,
    CHR 0xE0, CHR 0xB8, CHR 0xA5, CHR 0xE0, CHR 0xB8, CHR 0xB7, CHR 0xE0, CHR 0xB8, CHR 0xAD,
    CHR 0xE0, CHR 0xB8, CHR 0x81, CHR 0xE0, CHR 0xB8, CHR 0x9E, CHR 0xE0, CHR 0xB8, CHR 0xB7,
    CHR 0xE0, CHR 0xB9, CHR 0x89, CHR 0xE0, CHR 0xB8, CHR 0x99, CHR 0xE0, CHR 0xB8, CHR 0x97,
    CHR 0xE0, CHR 0xB8, CHR 0xB5, CHR 0xE0, CHR 0xB9, CHR 0x88, CHR 0xE0, CHR 0xB8, CHR 0x97,
    CHR 0xE0, CHR 0xB8, CHR 0xB5, CHR 0xE0, CHR 0xB9, CHR 0x88, CHR 0xE0, CHR 0xB8, CHR 0x88,
    CHR 0xE0, CHR 0xB8, CHR 0xB0, CHR 0xE0, CHR 0xB8, CHR 0x95, CHR 0xE0, CHR 0xB8, CHR 0xB1,
    CHR 0xE0, CHR 0xB8, CHR 0x94, CHR 0xE0, CHR 0xB8, CHR 0x81, CHR 0xE0, CHR 0xB9, CHR 0x88,
    CHR 0xE0, CHR 0xB8, CHR 0xAD, CHR 0xE0, CHR 0xB8, CHR 0x99]"

definition msg_crop_too_small :: string where
  \<comment> \<open>single-image handleApplyCrop: the selected crop area is too small; the UTF-8 bytes of the source literal\<close>
  "msg_crop_too_small =
   [CHR 0xE0, CHR 0xB8, CHR 0x9E, CHR 0xE0, CHR 0xB8, CHR 0xB7, CHR 0xE0, CHR 0xB9, CHR 0x89,
    CHR 0xE0, CHR 0xB8, CHR 0x99, CHR 0xE0, CHR 0xB8, CHR 0x97, CHR 0xE0, CHR 0xB8, CHR 0xB5,
    CHR 0xE0, CHR 0xB9, CHR 0x88, CHR 0xE0, CHR 0xB8, CHR 0x97, CHR 0xE0, CHR 0xB8, CHR 0xB5,
    CHR 0xE0, CHR 0xB9, CHR 0x88, CHR 0xE0, CHR 0xB9, CHR 0x80, CHR 0xE0, CHR 0xB8, CHR 0xA5,
    CHR 0xE0, CHR 0xB8, CHR 0xB7, CHR 0xE0, CHR 0xB8, CHR 0xAD, CHR 0xE0, CHR 0xB8, CHR 0x81,
    CHR 0xE0, CHR 0xB8, CHR 0x95, CHR 0xE0, CHR 0xB8, CHR 0xB1, CHR 0xE0, CHR 0xB8, CHR 0x94,
    CHR 0xE0, CHR 0xB8, CHR 0xA1, CHR 0xE0, CHR 0xB8, CHR 0xB5, CHR 0xE0, CHR 0xB8, CHR 0x82,
    CHR 0xE0, CHR 0xB8, CHR 0x99, CHR 0xE0, CHR 0xB8, CHR 0xB2, CHR 0xE0, CHR 0xB8, CHR 0x94,
    CHR 0xE0, CHR 0xB9, CHR 0x80, CHR 0xE0, CHR 0xB8, CHR 0xA5, CHR 0xE0, CHR 0xB9, CHR 0x87,
    CHR 0xE0, CHR 0xB8, CHR 0x81, CHR 0xE0, CHR 0xB9, CHR 0x80, CHR 0xE0, CHR 0xB8, CHR 0x81,
    CHR 0xE0, CHR 0xB8, CHR 0xB4, CHR 0xE0, CHR 0xB8, CHR 0x99, CHR 0xE0, CHR 0xB9, CHR 0x84,
    CHR 0xE0, CHR 0xB8, CHR 0x9B]"

definition msg_crop_no_canvas :: string where
  \<comment> \<open>single-image handleApplyCrop: cannot create a canvas for cropping; the UTF-8 bytes of the source literal\<close>
  "msg_crop_no_canvas =
   [CHR 0xE0, CHR 0xB9, CHR 0x84, CHR 0xE0, CHR 0xB8, CHR 0xA1, CHR 0xE0, CHR 0xB9, CHR 0x88,
    CHR 0xE0, CHR 0xB8, CHR 0xAA, CHR 0xE0, CHR 0xB8, CHR 0xB2, CHR 0xE0, CHR 0xB8, CHR 0xA1,
    CHR 0xE0, CHR 0xB8, CHR 0xB2, CHR 0xE0, CHR 0xB8, CHR 0xA3, CHR 0xE0, CHR 0xB8, CHR 0x96,
    CHR 0xE0, CHR 0xB8, CHR 0xAA, CHR 0xE0, CHR 0xB8, CHR 0xA3, CHR 0xE0, CHR 0xB9, CHR 0x89,
    CHR 0xE0, CHR 0xB8, CHR 0xB2, CHR 0xE0, CHR 0xB8, CHR 0x87, CHR 0x20, CHR 0x63, CHR 0x61,
    CHR 0x6E, CHR 0x76, CHR 0x61, CHR 0x73, CHR 0x20, CHR 0xE0, CHR 0xB8, CHR 0xAA, CHR 0xE0,
    CHR 0xB8, CHR 0xB3, CHR 0xE0, CHR 0xB8, CHR 0xAB, CHR 0xE0, CHR 0xB8, CHR 0xA3, CHR 0xE0,
    CHR 0xB8, CHR 0xB1, CHR 0xE0, CHR 0xB8, CHR 0x9A, CHR 0xE0, CHR 0xB8, CHR 0x81, CHR 0xE0,
    CHR 0xB8, CHR 0xB2, CHR 0xE0, CHR 0xB8, CHR 0xA3, CHR 0xE0, CHR 0xB8, CHR 0x95, CHR 0xE0,
    CHR 0xB8, CHR 0xB1, CHR 0xE0, CHR 0xB8, CHR 0x94, CHR 0xE0, CHR 0xB8, CHR 0xA0, CHR 0xE0,
    CHR 0xB8, CHR 0xB2, CHR 0xE0, CHR 0xB8, CHR 0x9E, CHR 0xE0, CHR 0xB9, CHR 0x84, CHR 0xE0,
    CHR 0xB8, CHR 0x94, CHR 0xE0, CHR 0xB9, CHR 0x89]"

section \<open>Strings\<close>

text \<open>
  \<^verbatim>\<open>String.prototype.trim\<close> removes the white space and line terminators of the
  language from both ends. They are listed here in UTF-8: U+0009 to U+000D, U+0020,
  U+00A0, U+1680, U+2000 to U+200A, U+2028, U+2029, U+202F, U+205F, U+3000 and U+FEFF.
\<close>

definition whitespace :: "string list" where
  "whitespace =
     [[CHR 0x09], [CHR 0x0A], [CHR 0x0B], [CHR 0x0C], [CHR 0x0D], [CHR 0x20],
      [CHR 0xC2, CHR 0xA0], [CHR 0xE1, CHR 0x9A, CHR 0x80],
      [CHR 0xE2, CHR 0x80, CHR 0x80], [CHR 0xE2, CHR 0x80, CHR 0x81],
      [CHR 0xE2, CHR 0x80, CHR 0x82], [CHR 0xE2, CHR 0x80, CHR 0x83],
      [CHR 0xE2, CHR 0x80, CHR 0x84], [CHR 0xE2, CHR 0x80, CHR 0x85],
      [CHR 0xE2, CHR 0x80, CHR 0x86], [CHR 0xE2, CHR 0x80, CHR 0x87],
      [CHR 0xE2, CHR 0x80, CHR 0x88], [CHR 0xE2, CHR 0x80, CHR 0x89],
      [CHR 0xE2, CHR 0x80, CHR 0x8A], [CHR 0xE2, CHR 0x80, CHR 0xA8],
      [CHR 0xE2, CHR 0x80, CHR 0xA9], [CHR 0xE2, CHR 0x80, CHR 0xAF],
      [CHR 0xE2, CHR 0x81, CHR 0x9F], [CHR 0xE3, CHR 0x80, CHR 0x80],
      [CHR 0xEF, CHR 0xBB, CHR 0xBF]]"

text \<open>Drop, from the front, every leading occurrence of one of the given sequences.\<close>

function dropLeading :: "string list \<Rightarrow> string \<Rightarrow> string" where
  "dropLeading ws s =
     (case find (\<lambda>e. e \<noteq> [] \<and> prefix e s) ws of
        Some e \<Rightarrow> dropLeading ws (drop (length e) s)
      | None \<Rightarrow> s)"
  by pat_completeness auto
termination
proof (relation "measure (\<lambda>(ws, s). length s)")
  show "wf (measure (\<lambda>(ws, s). length s))" by simp
next
  fix ws :: "string list" and s e :: string
  assume "find (\<lambda>e. e \<noteq> [] \<and> prefix e s) ws = Some e"
  then have "e \<noteq> [] \<and> prefix e s"
    by (auto simp: find_Some_iff)
  then have "length e \<le> length s" and "0 < length e"
    by (auto simp: prefix_def)
  then show "((ws, drop (length e) s), (ws, s)) \<in> measure (\<lambda>(ws, s). length s)"
    by (cases e) auto
qed

declare dropLeading.simps [simp del]

definition trim :: "string \<Rightarrow> string" where
  "trim s = rev (dropLeading (map rev whitespace) (rev (dropLeading whitespace s)))"

text \<open>\<^verbatim>\<open>s.split(c)\<close> for a one-character separator.\<close>

fun splitOn :: "char \<Rightarrow> string \<Rightarrow> string list" where
  "splitOn c [] = [[]]"
| "splitOn c (x # xs) =
     (if x = c then [] # splitOn c xs
      else (case splitOn c xs of r # rs \<Rightarrow> (x # r) # rs | [] \<Rightarrow> [[x]]))"

text \<open>
  The capture group of the regular expression \<^verbatim>\<open>/:(.*?);/\<close>. \<open>upToSemicolon\<close>
  reads the shortest run of characters other than line terminators (U+000A, U+000D,
  U+2028, U+2029) that a semicolon ends; \<open>mimeMatch\<close> tries it after each colon, from
  the left. The result is \<^verbatim>\<open>mimeMatch[1]\<close>, \<open>None\<close> when there is no match.
\<close>

fun upToSemicolon :: "string \<Rightarrow> string option" where
  "upToSemicolon [] = None"
| "upToSemicolon (c # cs) =
     (if c = CHR '';'' then Some []
      else if c = CHR 0x0A \<or> c = CHR 0x0D
              \<or> prefix [CHR 0xE2, CHR 0x80, CHR 0xA8] (c # cs)
              \<or> prefix [CHR 0xE2, CHR 0x80, CHR 0xA9] (c # cs) then None
      else map_option ((#) c) (upToSemicolon cs))"

fun mimeMatch :: "string \<Rightarrow> string option" where
  "mimeMatch [] = None"
| "mimeMatch (c # cs) =
     (if c = CHR '':'' then (case upToSemicolon cs of Some g \<Rightarrow> Some g | None \<Rightarrow> mimeMatch cs)
      else mimeMatch cs)"

text \<open>
  The type a \<^verbatim>\<open>File\<close> is constructed with: the empty string when the given text
  has a character outside U+0020 to U+007E, else the text in ASCII lower case.
\<close>

definition asciiLower :: "char \<Rightarrow> char" where
  "asciiLower c =
     (if 65 \<le> (of_char c :: nat) \<and> (of_char c :: nat) \<le> 90
      then char_of ((of_char c :: nat) + 32) else c)"

definition fileTypeOf :: "string \<Rightarrow> string" where
  "fileTypeOf t =
     (if list_all (\<lambda>c. 32 \<le> (of_char c :: nat) \<and> (of_char c :: nat) \<le> 126) t
      then map asciiLower t else [])"

text \<open>
  \<^verbatim>\<open>dataURLtoFile\<close>: the two \<^verbatim>\<open>throw\<close>s and the exception of
  \<^verbatim>\<open>atob\<close> are \<open>Inl\<close>. The file holds the decoded bytes.
\<close>

definition dataURLtoFile :: "World \<Rightarrow> string \<Rightarrow> string \<Rightarrow> thrown + File" where
  "dataURLtoFile w dataurl filename =
     (let arr = splitOn CHR '','' dataurl in
      if length arr < 2 then Inl (ErrorObj ''Invalid data URL'')
      else (case mimeMatch (arr ! 0) of
              None \<Rightarrow> Inl (ErrorObj ''Could not parse MIME type from data URL'')
            | Some mime \<Rightarrow>
                if mime = [] then Inl (ErrorObj ''Could not parse MIME type from data URL'')
                else (case atob w (arr ! 1) of
                        Inl e \<Rightarrow> Inl e
                      | Inr bstr \<Rightarrow>
                          Inr \<lparr>fileRef = newFileRef w, fileBits = bstr,
                               fileName = filename, fileType = fileTypeOf mime\<rparr>)))"

section \<open>Handlers of the multi-layer editor\<close>

text \<open>
  Each handler is a function from the state of the render it was created in to the
  state after it has finished; an asynchronous handler is taken as one step, the busy
  flag \<open>isLoading\<close> disabling the editing controls while it runs. The handlers log a
  caught error with \<^verbatim>\<open>console.error\<close>; the log is not part of the state.
\<close>

definition activeLayer :: "AppState \<Rightarrow> Layer option" where
  "activeLayer s = find (\<lambda>l. Some (id_layer l) = activeLayerId s) (layers s)"

definition handleImageUpload :: "World \<Rightarrow> AppState \<Rightarrow> File \<Rightarrow> AppState" where
  "handleImageUpload w s f =
     (let newLayer = \<lparr>id_layer = ''layer-'' @ decimal (now w), file_layer = f,
                      objectUrl = createObjectURL w f, name = ''Background'',
                      opacity = 100, isVisible = True\<rparr>
      in s\<lparr>error := None, layers := [newLayer], activeLayerId := Some (id_layer newLayer),
           history := [[newLayer]], historyIndex := 0,
           successMessage := Some msg_upload_ok, editHotspot := None,
           displayHotspot := None, activeTab := Retouch\<rparr>)"

definition handleAddLayer :: "World \<Rightarrow> AppState \<Rightarrow> File \<Rightarrow> AppState" where
  "handleAddLayer w s f =
     (if length (layers s) = 0 then handleImageUpload w s f
      else (let newLayer = \<lparr>id_layer = ''layer-'' @ decimal (now w), file_layer = f,
                            objectUrl = createObjectURL w f,
                            name = ''Layer '' @ decimal (length (layers s)),
                            opacity = 100, isVisible = True\<rparr>;
                newLayers = layers s @ [newLayer]
            in (commitChanges s newLayers True)\<lparr>activeLayerId := Some (id_layer newLayer)\<rparr>))"

text \<open>The \<^verbatim>\<open>catch\<close> and \<^verbatim>\<open>finally\<close> blocks the asynchronous handlers share.\<close>

definition errorMessage :: "thrown \<Rightarrow> string" where
  "errorMessage err =
     (case err of ErrorObj m \<Rightarrow> m | NonError v \<Rightarrow> ''An unknown error occurred.'')"

definition caught :: "string \<Rightarrow> AppState \<Rightarrow> thrown \<Rightarrow> AppState" where
  "caught label s err = s\<lparr>error := Some (label @ '' '' @ errorMessage err), isLoading := False\<rparr>"

text \<open>
  The \<^verbatim>\<open>layers.map\<close> of the five transform handlers: the layer whose id is the
  active one gets the new file and a new object URL.
\<close>

definition updatedLayers :: "World \<Rightarrow> AppState \<Rightarrow> File \<Rightarrow> Layer list" where
  "updatedLayers w s newImageFile =
     map (\<lambda>l. if Some (id_layer l) = activeLayerId s
              then l\<lparr>file_layer := newImageFile, objectUrl := createObjectURL w newImageFile\<rparr>
              else l) (layers s)"

definition handleGenerate :: "World \<Rightarrow> AppState \<Rightarrow> AppState" where
  "handleGenerate w s =
     (case activeLayer s of
        None \<Rightarrow> s\<lparr>error := Some msg_no_layer_edit\<rparr>
      | Some al \<Rightarrow>
          if trim (prompt s) = [] then s\<lparr>error := Some msg_no_prompt\<rparr>
          else (case editHotspot s of
                  None \<Rightarrow> s\<lparr>error := Some msg_no_hotspot\<rparr>
                | Some hotspot \<Rightarrow>
                   (let s0 = s\<lparr>isLoading := True, error := None\<rparr> in
                    case service w (EditedImage (file_layer al) (prompt s) hotspot (additionalPrompt s)
                                      (isTransparent s) (real_of_int (retouchScale s) / 100)) of
                      Rejected err \<Rightarrow> caught msg_generate_failed s0 err
                    | Resolved editedImageUrl \<Rightarrow>
                       (case dataURLtoFile w editedImageUrl
                               (''edited-'' @ decimal (now w) @ ''.png'') of
                          Inl err \<Rightarrow> caught msg_generate_failed s0 err
                        | Inr newImageFile \<Rightarrow>
                            (commitChanges s0 (updatedLayers w s newImageFile) True)
                              \<lparr>prompt := [], editHotspot := None, displayHotspot := None,
                               isLoading := False\<rparr>))))"

definition handleApplyFilter :: "World \<Rightarrow> AppState \<Rightarrow> string \<Rightarrow> string \<Rightarrow> AppState" where
  "handleApplyFilter w s filterPrompt additionalPrompt' =
     (case activeLayer s of
        None \<Rightarrow> s\<lparr>error := Some msg_no_layer_filter\<rparr>
      | Some al \<Rightarrow>
         (let s0 = s\<lparr>isLoading := True, error := None\<rparr> in
          case service w (FilteredImage (file_layer al) filterPrompt additionalPrompt'
                            (isTransparent s)) of
            Rejected err \<Rightarrow> caught msg_filter_failed s0 err
          | Resolved filteredImageUrl \<Rightarrow>
             (case dataURLtoFile w filteredImageUrl
                     (''filtered-'' @ decimal (now w) @ ''.png'') of
                Inl err \<Rightarrow> caught msg_filter_failed s0 err
              | Inr newImageFile \<Rightarrow>
                  (commitChanges s0 (updatedLayers w s newImageFile) True)
                    \<lparr>isLoading := False\<rparr>)))"

definition handleApplyAdjustment :: "World \<Rightarrow> AppState \<Rightarrow> string \<Rightarrow> string \<Rightarrow> AppState" where
  "handleApplyAdjustment w s adjustmentPrompt additionalPrompt' =
     (case activeLayer s of
        None \<Rightarrow> s\<lparr>error := Some msg_no_layer_adjust\<rparr>
      | Some al \<Rightarrow>
         (let s0 = s\<lparr>isLoading := True, error := None\<rparr> in
          case service w (AdjustedImage (file_layer al) adjustmentPrompt (secondaryImage s)
                            additionalPrompt' (isTransparent s)) of
            Rejected err \<Rightarrow> caught msg_adjust_failed s0 err
          | Resolved adjustedImageUrl \<Rightarrow>
             (case dataURLtoFile w adjustedImageUrl
                     (''adjusted-'' @ decimal (now w) @ ''.png'') of
                Inl err \<Rightarrow> caught msg_adjust_failed s0 err
              | Inr newImageFile \<Rightarrow>
                  (commitChanges s0 (updatedLayers w s newImageFile) True)
                    \<lparr>isLoading := False\<rparr>)))"

definition handleApplyFaceSwap :: "World \<Rightarrow> AppState \<Rightarrow> AppState" where
  "handleApplyFaceSwap w s =
     (case (activeLayer s, secondaryImage s) of
        (Some al, Some secondary) \<Rightarrow>
         (let s0 = s\<lparr>isLoading := True, error := None\<rparr> in
          case service w (FaceSwapImage (file_layer al) secondary (additionalPrompt s)
                            (isTransparent s)) of
            Rejected err \<Rightarrow> caught msg_faceswap_failed s0 err
          | Resolved swappedImageUrl \<Rightarrow>
             (case dataURLtoFile w swappedImageUrl
                     (''faceswap-'' @ decimal (now w) @ ''.png'') of
                Inl err \<Rightarrow> caught msg_faceswap_failed s0 err
              | Inr newImageFile \<Rightarrow>
                  (commitChanges s0 (updatedLayers w s newImageFile) True)
                    \<lparr>isLoading := False\<rparr>))
      | _ \<Rightarrow> s\<lparr>error := Some msg_faceswap_missing\<rparr>)"

definition handleRemoveBackground :: "World \<Rightarrow> AppState \<Rightarrow> string \<Rightarrow> AppState" where
  "handleRemoveBackground w s additionalPrompt' =
     (case activeLayer s of
        None \<Rightarrow> s\<lparr>error := Some msg_no_layer_removebg\<rparr>
      | Some al \<Rightarrow>
         (let s0 = s\<lparr>isLoading := True, error := None\<rparr> in
          case service w (RemovedBgImage (file_layer al) additionalPrompt' (isTransparent s)) of
            Rejected err \<Rightarrow> caught msg_removebg_failed s0 err
          | Resolved removedBgImageUrl \<Rightarrow>
             (case dataURLtoFile w removedBgImageUrl
                     (''removed-bg-'' @ decimal (now w) @ ''.png'') of
                Inl err \<Rightarrow> caught msg_removebg_failed s0 err
              | Inr newImageFile \<Rightarrow>
                  (commitChanges s0 (updatedLayers w s newImageFile) True)
                    \<lparr>isLoading := False\<rparr>)))"

section \<open>Compositor\<close>

text \<open>
  The loop of \<^verbatim>\<open>flattenLayersForCrop\<close>: each visible layer is loaded and drawn over
  the whole canvas with its opacity as alpha; a layer that does not load rejects the
  promise (\<open>None\<close>).
\<close>

fun drawLayers :: "World \<Rightarrow> Layer list \<Rightarrow> Canvas \<Rightarrow> Canvas option" where
  "drawLayers w [] canvas = Some canvas"
| "drawLayers w (layer # rest) canvas =
     (if isVisible layer
      then (case loadImage w (objectUrl layer) of
              None \<Rightarrow> None
            | Some img \<Rightarrow>
                drawLayers w rest
                  (canvas\<lparr>drawCalls := drawCalls canvas @
                     [DrawImage (objectUrl layer) (real_of_int (opacity layer) / 100)
                        [Some 0, Some 0, Some (real (width_canvas canvas)),
                         Some (real (height_canvas canvas))]]\<rparr>))
      else drawLayers w rest canvas)"

text \<open>
  \<^verbatim>\<open>flattenLayersForCrop\<close>, of the layers of the render. \<open>Resolved None\<close> is
  the promise resolved with \<^verbatim>\<open>null\<close>; a rejection carries the \<^verbatim>\<open>error\<close>
  event of the image, which is not an \<^verbatim>\<open>Error\<close>.
\<close>

definition flattenLayersForCrop :: "World \<Rightarrow> Layer list \<Rightarrow> string option outcome" where
  "flattenLayersForCrop w ls =
     (if length ls = 0 then Resolved None
      else if \<not> getContext2d w then Resolved None
      else (case find isVisible ls of
              None \<Rightarrow> Resolved None
            | Some firstVisibleLayer \<Rightarrow>
               (case loadImage w (objectUrl firstVisibleLayer) of
                  None \<Rightarrow> Rejected (NonError ''[object Event]'')
                | Some baseImg \<Rightarrow>
                   (case drawLayers w ls
                           \<lparr>width_canvas = canvasDimension 300 (Some (real (naturalWidth baseImg))),
                            height_canvas = canvasDimension 150 (Some (real (naturalHeight baseImg))),
                            drawCalls = []\<rparr> of
                      None \<Rightarrow> Rejected (NonError ''[object Event]'')
                    | Some canvas \<Rightarrow> Resolved (Some (toDataURL w canvas))))))"

section \<open>Crop, undo, redo and the layer store\<close>

text \<open>Division and multiplication of numbers; \<open>None\<close> is a result that is not finite.\<close>

definition divide_js :: "real \<Rightarrow> real \<Rightarrow> real option" where
  "divide_js a b = (if b = 0 then None else Some (a / b))"

definition times_js :: "real \<Rightarrow> real option \<Rightarrow> real option" where
  "times_js a b = map_option (\<lambda>r. a * r) b"

text \<open>
  \<^verbatim>\<open>handleApplyCrop\<close>. The image is awaited with \<^verbatim>\<open>onload\<close> only: when it
  does not load, the handler never resumes and the state stays as it was set before
  the \<^verbatim>\<open>try\<close>. An empty string is falsy, as \<^verbatim>\<open>null\<close> is. The canvas
  is drawn to with the width and height read back from it.
\<close>

definition handleApplyCrop :: "World \<Rightarrow> AppState \<Rightarrow> AppState" where
  "handleApplyCrop w s =
     (case (completedCrop s, flattenedImageForCropUrl s, activeLayer s) of
        (Some cc, Some url, Some al) \<Rightarrow>
          if url = [] then s\<lparr>error := Some msg_crop_select_first\<rparr>
          else
           (let s0 = s\<lparr>isLoading := True, error := None\<rparr> in
            case loadImage w url of
              None \<Rightarrow> s0
            | Some img \<Rightarrow>
               (let scaleX = divide_js (real (naturalWidth img)) (real (width_img img));
                    scaleY = divide_js (real (naturalHeight img)) (real (height_img img));
                    canvasWidth = canvasDimension 300 (times_js (width_crop cc) scaleX);
                    canvasHeight = canvasDimension 150 (times_js (height_crop cc) scaleY)
                in if \<not> getContext2d w
                   then caught msg_crop_failed s0 (ErrorObj ''Could not create canvas context'')
                   else
                    (let canvas = \<lparr>width_canvas = canvasWidth, height_canvas = canvasHeight,
                                   drawCalls = [DrawImage url 1
                                     [times_js (x_crop cc) scaleX, times_js (y_crop cc) scaleY,
                                      times_js (width_crop cc) scaleX,
                                      times_js (height_crop cc) scaleY,
                                      Some 0, Some 0, Some (real canvasWidth),
                                      Some (real canvasHeight)]]\<rparr>;
                         croppedDataUrl = toDataURL w canvas
                     in case dataURLtoFile w croppedDataUrl
                               (''cropped-'' @ decimal (now w) @ ''.png'') of
                          Inl err \<Rightarrow> caught msg_crop_failed s0 err
                        | Inr newImageFile \<Rightarrow>
                           (let newLayer = al\<lparr>file_layer := newImageFile,
                                              objectUrl := createObjectURL w newImageFile,
                                              name := ''Cropped Image''\<rparr>
                            in (commitChanges s0 [newLayer] True)
                                 \<lparr>activeTab := Retouch, isLoading := False\<rparr>))))
      | _ \<Rightarrow> s\<lparr>error := Some msg_crop_select_first\<rparr>)"

text \<open>
  \<^verbatim>\<open>xs[i]\<close>: \<^verbatim>\<open>undefined\<close> (\<open>None\<close>) outside the list. Undo and redo
  store \<^verbatim>\<open>history[newIndex]\<close> as the layers; were it \<^verbatim>\<open>undefined\<close>, the
  next render would throw, which is the result \<open>None\<close>.
\<close>

definition nth_js :: "'a list \<Rightarrow> int \<Rightarrow> 'a option" where
  "nth_js xs i = (if 0 \<le> i \<and> i < int (length xs) then Some (xs ! nat i) else None)"

definition handleUndo :: "AppState \<Rightarrow> AppState option" where
  "handleUndo s =
     (if canUndo s
      then (let newIndex = historyIndex s - 1
            in map_option (\<lambda>ls. s\<lparr>historyIndex := newIndex, layers := ls\<rparr>)
                 (nth_js (history s) newIndex))
      else Some s)"

definition handleRedo :: "AppState \<Rightarrow> AppState option" where
  "handleRedo s =
     (if canRedo s
      then (let newIndex = historyIndex s + 1
            in map_option (\<lambda>ls. s\<lparr>historyIndex := newIndex, layers := ls\<rparr>)
                 (nth_js (history s) newIndex))
      else Some s)"

definition handleDeleteLayer :: "AppState \<Rightarrow> string \<Rightarrow> AppState" where
  "handleDeleteLayer s i =
     (let newLayers = filter (\<lambda>l. id_layer l \<noteq> i) (layers s) in
      if length newLayers > 0
      then (commitChanges s newLayers True)
             \<lparr>activeLayerId := (if activeLayerId s = Some i
                                 then Some (id_layer (last newLayers))
                                 else activeLayerId s)\<rparr>
      else s\<lparr>layers := [], history := [], historyIndex := -1, activeLayerId := None\<rparr>)"

definition handleReorderLayers :: "AppState \<Rightarrow> Layer list \<Rightarrow> AppState" where
  "handleReorderLayers s reordered = commitChanges s reordered True"

definition handleLayerOpacityChange :: "AppState \<Rightarrow> string \<Rightarrow> int \<Rightarrow> AppState" where
  "handleLayerOpacityChange s i opacity' =
     commitChanges s
       (map (\<lambda>l. if id_layer l = i then l\<lparr>opacity := opacity'\<rparr> else l) (layers s)) False"

definition commitOpacityChange :: "AppState \<Rightarrow> AppState" where
  "commitOpacityChange s =
     (let newHistory = slice0 (history s) (historyIndex s + 1) @ [layers s]
      in s\<lparr>history := newHistory, historyIndex := int (length newHistory) - 1\<rparr>)"

definition handleLayerVisibilityChange :: "AppState \<Rightarrow> string \<Rightarrow> AppState" where
  "handleLayerVisibilityChange s i =
     commitChanges s
       (map (\<lambda>l. if id_layer l = i then l\<lparr>isVisible := \<not> isVisible l\<rparr> else l) (layers s))
       True"

text \<open>
  \<^verbatim>\<open>handleImageClick\<close>, with the rounded position of the click inside the image
  container.
\<close>

definition handleImageClick :: "AppState \<Rightarrow> Hotspot \<Rightarrow> AppState" where
  "handleImageClick s p =
     (if activeTab s \<noteq> Retouch then s
      else s\<lparr>editHotspot := Some p, displayHotspot := Some p\<rparr>)"

text \<open>
  The effect that prepares the crop tab: on the crop tab the flattened composite of the
  layers is stored once the promise resolves, on any other tab \<^verbatim>\<open>null\<close> is.
\<close>

definition cropTabEffect :: "World \<Rightarrow> AppState \<Rightarrow> AppState" where
  "cropTabEffect w s =
     (if activeTab s = CropTab
      then (case flattenLayersForCrop w (layers s) of
              Resolved url \<Rightarrow> s\<lparr>flattenedImageForCropUrl := url\<rparr>
            | Rejected err \<Rightarrow> s)
      else s\<lparr>flattenedImageForCropUrl := None\<rparr>)"

section \<open>The layer panel\<close>

text \<open>
  The range input of a layer row in \<^verbatim>\<open>LayerPanel\<close> binds \<^verbatim>\<open>onChange\<close>, which
  reports the parsed value to \<^verbatim>\<open>onLayerOpacityChange\<close>, and \<^verbatim>\<open>onClick\<close>, which
  only stops the propagation of the click. Nothing is bound to the release of the
  mouse, and \<^verbatim>\<open>commitOpacityChange\<close> is not among the properties passed to the panel.
\<close>

datatype RangeInputEvent = OnChange int | OnClick | OnMouseUp

definition opacitySlider :: "AppState \<Rightarrow> Layer \<Rightarrow> RangeInputEvent \<Rightarrow> AppState" where
  "opacitySlider s layer ev =
     (case ev of
        OnChange v \<Rightarrow> handleLayerOpacityChange s (id_layer layer) v
      | OnClick \<Rightarrow> s
      | OnMouseUp \<Rightarrow> s)"

text \<open>
  \<^verbatim>\<open>RemoveBackgroundPanel\<close> keeps the auxiliary instruction of its input field in
  a cell of its own. \<^verbatim>\<open>handleApply\<close> hands the text to the handler of the editor
  as an argument and leaves the cell as it is.
\<close>

record RemoveBackgroundPanel =
  additionalPrompt_panel :: string

definition handleApply ::
  "World \<Rightarrow> AppState \<Rightarrow> RemoveBackgroundPanel \<Rightarrow> AppState \<times> RemoveBackgroundPanel" where
  "handleApply w s panel = (handleRemoveBackground w s (additionalPrompt_panel panel), panel)"

section \<open>Operations of the editor\<close>

text \<open>
  One user action: the handler it calls, and the crop-tab effect of the render that
  follows. The plain setters of the controls are actions too. \<open>None\<close> is a render that
  throws.
\<close>

datatype action =
    ImageUpload File
  | AddLayer File
  | Generate
  | ApplyFilter string string
  | ApplyAdjustment string string
  | ApplyFaceSwap
  | RemoveBackground string
  | ApplyCrop
  | Undo
  | Redo
  | DeleteLayer string
  | ReorderLayers "Layer list"
  | LayerOpacityChange string int
  | CommitOpacityChange
  | LayerVisibilityChange string
  | LayerSelect string
  | ImageClick Hotspot
  | SetPrompt string
  | SetAdditionalPrompt string
  | SetRetouchScale int
  | SetSecondaryImage "File option"
  | SetActiveTab Tab
  | SetCrop "Crop option"
  | SetCompletedCrop "Crop option"
  | SetIsTransparent bool

fun handle :: "World \<Rightarrow> action \<Rightarrow> AppState \<Rightarrow> AppState option" where
  "handle w (ImageUpload f) s = Some (handleImageUpload w s f)"
| "handle w (AddLayer f) s = Some (handleAddLayer w s f)"
| "handle w Generate s = Some (handleGenerate w s)"
| "handle w (ApplyFilter p a) s = Some (handleApplyFilter w s p a)"
| "handle w (ApplyAdjustment p a) s = Some (handleApplyAdjustment w s p a)"
| "handle w ApplyFaceSwap s = Some (handleApplyFaceSwap w s)"
| "handle w (RemoveBackground a) s = Some (handleRemoveBackground w s a)"
| "handle w ApplyCrop s = Some (handleApplyCrop w s)"
| "handle w Undo s = handleUndo s"
| "handle w Redo s = handleRedo s"
| "handle w (DeleteLayer i) s = Some (handleDeleteLayer s i)"
| "handle w (ReorderLayers ls) s = Some (handleReorderLayers s ls)"
| "handle w (LayerOpacityChange i v) s = Some (handleLayerOpacityChange s i v)"
| "handle w CommitOpacityChange s = Some (commitOpacityChange s)"
| "handle w (LayerVisibilityChange i) s = Some (handleLayerVisibilityChange s i)"
| "handle w (LayerSelect i) s = Some (s\<lparr>activeLayerId := Some i\<rparr>)"
| "handle w (ImageClick p) s = Some (handleImageClick s p)"
| "handle w (SetPrompt p) s = Some (s\<lparr>prompt := p\<rparr>)"
| "handle w (SetAdditionalPrompt p) s = Some (s\<lparr>additionalPrompt := p\<rparr>)"
| "handle w (SetRetouchScale v) s = Some (s\<lparr>retouchScale := v\<rparr>)"
| "handle w (SetSecondaryImage f) s = Some (s\<lparr>secondaryImage := f\<rparr>)"
| "handle w (SetActiveTab t) s = Some (s\<lparr>activeTab := t\<rparr>)"
| "handle w (SetCrop c) s = Some (s\<lparr>crop := c\<rparr>)"
| "handle w (SetCompletedCrop c) s = Some (s\<lparr>completedCrop := c\<rparr>)"
| "handle w (SetIsTransparent b) s = Some (s\<lparr>isTransparent := b\<rparr>)"

definition step :: "World \<Rightarrow> action \<Rightarrow> AppState \<Rightarrow> AppState option" where
  "step w a s = map_option (cropTabEffect w) (handle w a s)"

text \<open>A session: actions in order, each with the world it runs in.\<close>

fun run :: "(World \<times> action) list \<Rightarrow> AppState \<Rightarrow> AppState option" where
  "run [] s = Some s"
| "run ((w, a) # rest) s = (case step w a s of None \<Rightarrow> None | Some s' \<Rightarrow> run rest s')"

text \<open>Undo, \<open>n\<close> times.\<close>

fun undoTimes :: "nat \<Rightarrow> AppState \<Rightarrow> AppState option" where
  "undoTimes 0 s = Some s"
| "undoTimes (Suc n) s = (case handleUndo s of None \<Rightarrow> None | Some s' \<Rightarrow> undoTimes n s')"

section \<open>The single-image editor\<close>

text \<open>
  The second \<^verbatim>\<open>App\<close> component of the repository keeps a history of files. Its
  cells carry the suffix \<open>F\<close>; the cells holding object URLs for display are left out.
\<close>

record FlatState =
  historyF :: "File list"
  historyIndexF :: int
  promptF :: string
  additionalPromptF :: string
  isLoadingF :: bool
  errorF :: "string option"
  successMessageF :: "string option"
  editHotspotF :: "Hotspot option"
  displayHotspotF :: "Hotspot option"
  activeTabF :: Tab
  secondaryImageF :: "File option"
  retouchScaleF :: int
  cropF :: "Crop option"
  completedCropF :: "Crop option"
  aspectF :: "real option"
  isComparingF :: bool
  showExportModalF :: bool
  isTransparentF :: bool

definition canRedoF :: "FlatState \<Rightarrow> bool" where
  "canRedoF s \<longleftrightarrow> historyIndexF s < int (length (historyF s)) - 1"

definition addImageToHistory :: "FlatState \<Rightarrow> File \<Rightarrow> FlatState" where
  "addImageToHistory s newImageFile =
     (let newHistory = slice0 (historyF s) (historyIndexF s + 1) @ [newImageFile]
      in s\<lparr>historyF := newHistory, historyIndexF := int (length newHistory) - 1,
           cropF := None, completedCropF := None, secondaryImageF := None,
           additionalPromptF := [], retouchScaleF := 100\<rparr>)"

text \<open>
  What the crop handler of the single-image editor reads from outside: the displayed
  image element behind \<^verbatim>\<open>imgRef\<close>, whether a canvas yields a 2D context, the blob
  \<^verbatim>\<open>canvas.toBlob\<close> delivers (\<open>None\<close> for \<^verbatim>\<open>null\<close>), the clock and the identity
  of the new file.
\<close>

record WorldF =
  imgRef :: "ImageInfo option"
  getContext2dF :: bool
  toBlob :: "Canvas \<Rightarrow> string option"
  nowF :: nat
  newFileRefF :: nat

text \<open>
  Its \<^verbatim>\<open>handleApplyCrop\<close>. A product that is not finite is not \<^verbatim>\<open>=== 0\<close>.
\<close>

definition handleApplyCropF :: "WorldF \<Rightarrow> FlatState \<Rightarrow> FlatState" where
  "handleApplyCropF w s =
     (case (completedCropF s, imgRef w, nth_js (historyF s) (historyIndexF s)) of
        (Some cc, Some img, Some currentImage) \<Rightarrow>
          (let scaleX = divide_js (real (naturalWidth img)) (real (width_img img));
               scaleY = divide_js (real (naturalHeight img)) (real (height_img img));
               cropX = times_js (x_crop cc) scaleX;
               cropY = times_js (y_crop cc) scaleY;
               cropWidth = times_js (width_crop cc) scaleX;
               cropHeight = times_js (height_crop cc) scaleY
           in if cropWidth = Some 0 \<or> cropHeight = Some 0
              then s\<lparr>errorF := Some msg_crop_too_small\<rparr>
              else if \<not> getContext2dF w then s\<lparr>errorF := Some msg_crop_no_canvas\<rparr>
              else (case toBlob w \<lparr>width_canvas = canvasDimension 300 cropWidth,
                                    height_canvas = canvasDimension 150 cropHeight,
                                    drawCalls = [DrawImage [] 1
                                      [cropX, cropY, cropWidth, cropHeight,
                                       Some 0, Some 0, cropWidth, cropHeight]]\<rparr> of
                      None \<Rightarrow> s
                    | Some blob \<Rightarrow>
                        (addImageToHistory s
                           \<lparr>fileRef = newFileRefF w, fileBits = blob,
                            fileName = ''cropped-'' @ decimal (nowF w) @ ''.png'',
                            fileType = fileTypeOf ''image/png''\<rparr>)
                          \<lparr>activeTabF := Retouch\<rparr>))
      | _ \<Rightarrow> s\<lparr>errorF := Some msg_crop_select_first_flat\<rparr>)"


definition initialStateF :: "string option \<Rightarrow> FlatState" where
  "initialStateF saved =
     \<lparr>historyF = [], historyIndexF = -1, promptF = [], additionalPromptF = [],
      isLoadingF = False, errorF = None, successMessageF = None, editHotspotF = None,
      displayHotspotF = None, activeTabF = Retouch, secondaryImageF = None,
      retouchScaleF = 100, cropF = None, completedCropF = None, aspectF = None,
      isComparingF = False, showExportModalF = False,
      isTransparentF = (saved = Some ''true'')\<rparr>"

section \<open>The history invariant\<close>

text \<open>
  \<open>consistent\<close>: the layers on display are the snapshot under the cursor, or there is
  no snapshot at all (empty history, cursor \<open>-1\<close>, no layers).
  \<open>consistentUpToOpacity\<close> is the same with the opacity of every layer disregarded.
\<close>

definition consistent :: "AppState \<Rightarrow> bool" where
  "consistent s \<longleftrightarrow>
     (history s = [] \<and> historyIndex s = -1 \<and> layers s = [])
     \<or> nth_js (history s) (historyIndex s) = Some (layers s)"

definition eraseOpacity :: "Layer \<Rightarrow> Layer" where
  "eraseOpacity l = l\<lparr>opacity := 0\<rparr>"

definition consistentUpToOpacity :: "AppState \<Rightarrow> bool" where
  "consistentUpToOpacity s \<longleftrightarrow>
     (history s = [] \<and> historyIndex s = -1 \<and> layers s = [])
     \<or> (case nth_js (history s) (historyIndex s) of
           Some snapshot \<Rightarrow> map eraseOpacity snapshot = map eraseOpacity (layers s)
         | None \<Rightarrow> False)"

fun isOpacityChange :: "action \<Rightarrow> bool" where
  "isOpacityChange (LayerOpacityChange i v) = True"
| "isOpacityChange a = False"

section \<open>Transient editing state\<close>

text \<open>
  What \<^verbatim>\<open>commitChanges\<close> resets, what a retouch resets after it, and the end of a
  handler that has gone through: no error, not busy.
\<close>

definition transientCleared :: "AppState \<Rightarrow> bool" where
  "transientCleared s \<longleftrightarrow>
     crop s = None \<and> completedCrop s = None \<and> secondaryImage s = None
     \<and> additionalPrompt s = [] \<and> retouchScale s = 100"

definition hotspotAndPromptCleared :: "AppState \<Rightarrow> bool" where
  "hotspotAndPromptCleared s \<longleftrightarrow>
     editHotspot s = None \<and> displayHotspot s = None \<and> prompt s = []"

definition hotspotAndPromptKept :: "AppState \<Rightarrow> AppState \<Rightarrow> bool" where
  "hotspotAndPromptKept s s' \<longleftrightarrow>
     editHotspot s' = editHotspot s \<and> displayHotspot s' = displayHotspot s
     \<and> prompt s' = prompt s"

definition succeeded :: "AppState \<Rightarrow> bool" where
  "succeeded s \<longleftrightarrow> error s = None \<and> \<not> isLoading s"

text \<open>
  \<open>contentUnchanged\<close>: layers, history and cursor are as before. \<open>committed\<close>: the
  history is the old one cut after the cursor with the layers now on display appended,
  and the cursor is on them. \<open>editOutcome\<close> puts the two ends of an editing operation
  together: gone through, it has committed and cleared the transient state, and the
  hotspot and the instruction are cleared or kept as the flag says; otherwise nothing
  of the content, the hotspot or the instruction has changed.
\<close>

definition contentUnchanged :: "AppState \<Rightarrow> AppState \<Rightarrow> bool" where
  "contentUnchanged s s' \<longleftrightarrow>
     layers s' = layers s \<and> history s' = history s \<and> historyIndex s' = historyIndex s"

definition committed :: "AppState \<Rightarrow> AppState \<Rightarrow> bool" where
  "committed s s' \<longleftrightarrow>
     history s' = slice0 (history s) (historyIndex s + 1) @ [layers s']
     \<and> historyIndex s' = int (length (history s')) - 1"

definition editOutcome :: "bool \<Rightarrow> AppState \<Rightarrow> AppState \<Rightarrow> bool" where
  "editOutcome clearsHotspot s s' \<longleftrightarrow>
     (if succeeded s'
      then committed s s' \<and> transientCleared s'
           \<and> (if clearsHotspot then hotspotAndPromptCleared s' else hotspotAndPromptKept s s')
      else contentUnchanged s s' \<and> hotspotAndPromptKept s s')"

text \<open>
  The other ways the content can change: \<open>resetToEmpty\<close> (the last layer removed),
  \<open>startedAnew\<close> (an upload), \<open>cursorMoved\<close> (undo and redo: the history is kept
  and the layers are the snapshot under the new cursor) and \<open>opacityOnly\<close> (history
  and cursor kept, the layers changed in their opacity at most).
\<close>

definition resetToEmpty :: "AppState \<Rightarrow> bool" where
  "resetToEmpty s' \<longleftrightarrow> history s' = [] \<and> historyIndex s' = -1 \<and> layers s' = []"

definition startedAnew :: "AppState \<Rightarrow> bool" where
  "startedAnew s' \<longleftrightarrow> history s' = [layers s'] \<and> historyIndex s' = 0"

definition cursorMoved :: "AppState \<Rightarrow> AppState \<Rightarrow> bool" where
  "cursorMoved s s' \<longleftrightarrow>
     history s' = history s \<and> nth_js (history s) (historyIndex s') = Some (layers s')"

definition opacityOnly :: "AppState \<Rightarrow> AppState \<Rightarrow> bool" where
  "opacityOnly s s' \<longleftrightarrow>
     history s' = history s \<and> historyIndex s' = historyIndex s
     \<and> map eraseOpacity (layers s') = map eraseOpacity (layers s)"

text \<open>
  A sequence of committed edits from a state on: each state of the list has committed
  a snapshot on top of the one before, whatever else was done in between.
\<close>

fun editChain :: "AppState \<Rightarrow> AppState list \<Rightarrow> bool" where
  "editChain s [] = True"
| "editChain s (s' # rest) = (committed s s' \<and> editChain s' rest)"

section \<open>Concrete values for the instances\<close>

definition imageFile :: "nat \<Rightarrow> string \<Rightarrow> File" where
  "imageFile r n = \<lparr>fileRef = r, fileBits = ''PNG'', fileName = n, fileType = ''image/png''\<rparr>"

definition plainLayer :: "string \<Rightarrow> nat \<Rightarrow> Layer" where
  "plainLayer i r =
     \<lparr>id_layer = i, file_layer = imageFile r (i @ ''.png''), objectUrl = ''blob:'' @ i,
      name = i, opacity = 100, isVisible = True\<rparr>"

text \<open>
  A world in which everything succeeds: the service answers every request with a PNG
  data URL, every image loads with 640 by 480 pixels shown at half size, and a canvas
  is encoded as a PNG data URL that lists the sources drawn on it.
\<close>

definition drawnSources :: "Canvas \<Rightarrow> string" where
  "drawnSources c =
     concat (map (\<lambda>d. case d of DrawImage src a args \<Rightarrow> src @ ''+'') (drawCalls c))"

definition sunnyWorld :: World where
  "sunnyWorld =
     \<lparr>now = 1000, createObjectURL = (\<lambda>f. ''blob:'' @ fileName f), newFileRef = 99,
      atob = (\<lambda>s. Inr s),
      service = (\<lambda>r. Resolved ''data:image/png;base64,QUJD''),
      loadImage = (\<lambda>u. Some \<lparr>naturalWidth = 640, naturalHeight = 480,
                                width_img = 320, height_img = 240\<rparr>),
      getContext2d = True,
      toDataURL = (\<lambda>c. ''data:image/png;base64,'' @ drawnSources c)\<rparr>"

text \<open>
  The same world with a canvas that encodes a bitmap without pixels (width or height
  zero) as \<^verbatim>\<open>data:,\<close>, as browsers do.
\<close>

definition emptyCanvasWorld :: World where
  "emptyCanvasWorld =
     sunnyWorld\<lparr>toDataURL :=
       (\<lambda>c. if width_canvas c = 0 \<or> height_canvas c = 0 then ''data:,''
            else toDataURL sunnyWorld c)\<rparr>"

text \<open>A world whose transform service rejects every request with an \<^verbatim>\<open>Error\<close>.\<close>

definition failingWorld :: World where
  "failingWorld = sunnyWorld\<lparr>service := (\<lambda>r. Rejected (ErrorObj ''quota exceeded''))\<rparr>"

text \<open>
  A world whose transform service rejects every request with a string, which is not an
  \<^verbatim>\<open>Error\<close>.
\<close>

definition stringThrowingWorld :: World where
  "stringThrowingWorld = sunnyWorld\<lparr>service := (\<lambda>r. Rejected (NonError ''quota exceeded''))\<rparr>"

text \<open>Image A uploaded into the empty editor.\<close>

definition imageA :: File where
  "imageA = imageFile 1 ''A.png''"

definition uploadedA :: AppState where
  "uploadedA = handleImageUpload sunnyWorld (initialState None) imageA"

text \<open>
  Three layers \<open>a\<close>, \<open>b\<close>, \<open>c\<close> (bottom to top) added one after the other, the
  bottom one active.
\<close>

definition threeLayers :: AppState where
  "threeLayers =
     (initialState None)
       \<lparr>history := [[plainLayer ''a'' 1], [plainLayer ''a'' 1, plainLayer ''b'' 2],
                    [plainLayer ''a'' 1, plainLayer ''b'' 2, plainLayer ''c'' 3]],
        historyIndex := 2,
        layers := [plainLayer ''a'' 1, plainLayer ''b'' 2, plainLayer ''c'' 3],
        activeLayerId := Some ''a''\<rparr>"

text \<open>The same after one undo: two layers on display, one redo state.\<close>

definition afterOneUndo :: AppState where
  "afterOneUndo =
     threeLayers\<lparr>historyIndex := 1, layers := [plainLayer ''a'' 1, plainLayer ''b'' 2]\<rparr>"

text \<open>
  Image A uploaded, the instruction typed and the hotspot clicked: ready for a retouch.
\<close>

definition retouchReady :: AppState where
  "retouchReady = handleImageClick (uploadedA\<lparr>prompt := ''remove object''\<rparr>) (120, 80)"

text \<open>
  Image A uploaded, the crop tab opened and a selection of width zero completed.
\<close>

definition zeroWidthCrop :: Crop where
  "zeroWidthCrop =
     \<lparr>unit_crop = Px, x_crop = 10, y_crop = 10, width_crop = 0, height_crop = 50\<rparr>"

definition cropReady :: AppState where
  "cropReady =
     (cropTabEffect sunnyWorld (uploadedA\<lparr>activeTab := CropTab\<rparr>))
       \<lparr>completedCrop := Some zeroWidthCrop\<rparr>"

text \<open>
  Three layers with everything an operation may ask for filled in: instruction,
  hotspot, reference image, auxiliary instruction, a scale of 120, a crop selection
  and the flattened composite of the crop tab.
\<close>

definition someCrop :: Crop where
  "someCrop = \<lparr>unit_crop = Px, x_crop = 10, y_crop = 10, width_crop = 100, height_crop = 50\<rparr>"

definition fullyPrepared :: AppState where
  "fullyPrepared =
     threeLayers\<lparr>prompt := ''remove object'', additionalPrompt := ''softly'',
       editHotspot := Some (120, 80), displayHotspot := Some (120, 80),
       secondaryImage := Some imageA, retouchScale := 120,
       crop := Some someCrop, completedCrop := Some someCrop,
       flattenedImageForCropUrl := Some ''data:image/png;base64,QUJD''\<rparr>"

section \<open>Facts about committing\<close>

lemma slice0_nonneg: "0 \<le> e \<Longrightarrow> slice0 xs e = take (nat e) xs"
  by (simp add: slice0_def)

lemma commitChanges_history:
  "history (commitChanges s newLayers True) =
     slice0 (history s) (historyIndex s + 1) @ [newLayers]"
  by (simp add: commitChanges_def Let_def)

lemma commitChanges_historyIndex:
  "historyIndex (commitChanges s newLayers True) =
     int (length (slice0 (history s) (historyIndex s + 1)))"
  by (simp add: commitChanges_def Let_def)

lemma commitChanges_layers: "layers (commitChanges s newLayers b) = newLayers"
  by (simp add: commitChanges_def Let_def)

lemma commitChanges_no_history:
  "history (commitChanges s newLayers False) = history s"
  "historyIndex (commitChanges s newLayers False) = historyIndex s"
  by (simp_all add: commitChanges_def Let_def)

lemma commitChanges_transient:
  "crop (commitChanges s newLayers b) = None"
  "completedCrop (commitChanges s newLayers b) = None"
  "secondaryImage (commitChanges s newLayers b) = None"
  "additionalPrompt (commitChanges s newLayers b) = []"
  "retouchScale (commitChanges s newLayers b) = 100"
  by (simp_all add: commitChanges_def Let_def)

lemma commitChanges_frame:
  "activeLayerId (commitChanges s newLayers b) = activeLayerId s"
  "prompt (commitChanges s newLayers b) = prompt s"
  "isLoading (commitChanges s newLayers b) = isLoading s"
  "error (commitChanges s newLayers b) = error s"
  "successMessage (commitChanges s newLayers b) = successMessage s"
  "editHotspot (commitChanges s newLayers b) = editHotspot s"
  "displayHotspot (commitChanges s newLayers b) = displayHotspot s"
  "activeTab (commitChanges s newLayers b) = activeTab s"
  "aspect (commitChanges s newLayers b) = aspect s"
  "isComparing (commitChanges s newLayers b) = isComparing s"
  "showExportModal (commitChanges s newLayers b) = showExportModal s"
  "fileToExport (commitChanges s newLayers b) = fileToExport s"
  "isTransparent (commitChanges s newLayers b) = isTransparent s"
  "flattenedImageForCropUrl (commitChanges s newLayers b) = flattenedImageForCropUrl s"
  by (simp_all add: commitChanges_def Let_def)

section \<open>C2: a commit after an undo discards the redo states\<close>

text \<open>
  Claim C2. In a history whose cursor points at a snapshot strictly before the last
  one, committing keeps the snapshots up to the cursor, drops the ones after it,
  appends the new snapshot and moves the cursor onto it, one past where it was; redo
  is then unavailable. The same holds for \<open>addImageToHistory\<close> of the single-image
  editor.
\<close>

theorem commit_after_undo_discards_redo:
  assumes "0 \<le> historyIndex s" and "historyIndex s < int (length (history s)) - 1"
    and "0 \<le> historyIndexF t" and "historyIndexF t < int (length (historyF t)) - 1"
  shows "history (commitChanges s newLayers True) =
           take (nat (historyIndex s) + 1) (history s) @ [newLayers]
       \<and> historyIndex (commitChanges s newLayers True) =
           int (length (history (commitChanges s newLayers True))) - 1
       \<and> historyIndex (commitChanges s newLayers True) = historyIndex s + 1
       \<and> \<not> canRedo (commitChanges s newLayers True)
       \<and> historyF (addImageToHistory t newImageFile) =
           take (nat (historyIndexF t) + 1) (historyF t) @ [newImageFile]
       \<and> historyIndexF (addImageToHistory t newImageFile) = historyIndexF t + 1
       \<and> \<not> canRedoF (addImageToHistory t newImageFile)"
proof -
  have sl: "slice0 (history s) (historyIndex s + 1) = take (nat (historyIndex s) + 1) (history s)"
    using assms(1) by (simp add: slice0_nonneg nat_add_distrib)
  have len: "length (take (nat (historyIndex s) + 1) (history s)) = nat (historyIndex s) + 1"
    using assms(1,2) by simp
  have slF: "slice0 (historyF t) (historyIndexF t + 1) = take (nat (historyIndexF t) + 1) (historyF t)"
    using assms(3) by (simp add: slice0_nonneg nat_add_distrib)
  have lenF: "length (take (nat (historyIndexF t) + 1) (historyF t)) = nat (historyIndexF t) + 1"
    using assms(3,4) by simp
  have multi: "history (commitChanges s newLayers True) =
           take (nat (historyIndex s) + 1) (history s) @ [newLayers]
       \<and> historyIndex (commitChanges s newLayers True) =
           int (length (history (commitChanges s newLayers True))) - 1
       \<and> historyIndex (commitChanges s newLayers True) = historyIndex s + 1
       \<and> \<not> canRedo (commitChanges s newLayers True)"
    using assms(1,2) sl len
    by (simp add: commitChanges_history commitChanges_historyIndex canRedo_def)
  have flat: "historyF (addImageToHistory t newImageFile) =
           take (nat (historyIndexF t) + 1) (historyF t) @ [newImageFile]
       \<and> historyIndexF (addImageToHistory t newImageFile) = historyIndexF t + 1
       \<and> \<not> canRedoF (addImageToHistory t newImageFile)"
    using assms(3,4) slF lenF
    by (simp add: addImageToHistory_def canRedoF_def Let_def)
  from multi flat show ?thesis by blast
qed

theorem commit_after_undo_discards_redo_witness:
  "(let a = plainLayer ''a'' 1; b = plainLayer ''b'' 2; c = plainLayer ''c'' 3;
        s = (initialState None)\<lparr>history := [[a], [b], [c]], historyIndex := 0, layers := [a]\<rparr>;
        t = (initialStateF None)\<lparr>historyF := [file_layer a, file_layer b, file_layer c],
                                  historyIndexF := 1\<rparr>
    in 0 \<le> historyIndex s \<and> historyIndex s < int (length (history s)) - 1
     \<and> 0 \<le> historyIndexF t \<and> historyIndexF t < int (length (historyF t)) - 1
     \<and> history (commitChanges s [c] True) = [[a], [c]]
     \<and> historyIndex (commitChanges s [c] True) = 1
     \<and> \<not> canRedo (commitChanges s [c] True)
     \<and> historyF (addImageToHistory t (file_layer a)) = [file_layer a, file_layer b, file_layer a]
     \<and> historyIndexF (addImageToHistory t (file_layer a)) = 2
     \<and> \<not> canRedoF (addImageToHistory t (file_layer a)))"
  using commit_after_undo_discards_redo
    [of "(initialState None)\<lparr>history := [[plainLayer ''a'' 1], [plainLayer ''b'' 2],
           [plainLayer ''c'' 3]], historyIndex := 0, layers := [plainLayer ''a'' 1]\<rparr>"
        "(initialStateF None)\<lparr>historyF := [file_layer (plainLayer ''a'' 1),
           file_layer (plainLayer ''b'' 2), file_layer (plainLayer ''c'' 3)],
           historyIndexF := 1\<rparr>"
        "[plainLayer ''c'' 3]" "file_layer (plainLayer ''a'' 1)"]
  by (simp add: Let_def)

section \<open>C10: toggling visibility is a committed edit\<close>

lemma handleLayerVisibilityChange_layers:
  "layers (handleLayerVisibilityChange s i) =
     map (\<lambda>l. if id_layer l = i then l\<lparr>isVisible := \<not> isVisible l\<rparr> else l) (layers s)"
  by (simp add: handleLayerVisibilityChange_def commitChanges_layers)

text \<open>
  Claim C10. For a state whose cursor is within the history (or \<open>-1\<close>) and an id
  present among the layers, \<open>handleLayerVisibilityChange\<close> keeps the snapshots up to
  the cursor, drops the redo tail, appends the new layer list and advances the cursor
  by one. The new list has the same layers in the same order; the layers with the named
  id have their visibility negated, and every other field of every layer is as before.
\<close>

theorem visibility_toggle_is_a_commit:
  assumes "- 1 \<le> historyIndex s" and "historyIndex s < int (length (history s))"
    and "i \<in> id_layer ` set (layers s)"
  shows "history (handleLayerVisibilityChange s i) =
           take (nat (historyIndex s + 1)) (history s) @ [layers (handleLayerVisibilityChange s i)]
       \<and> historyIndex (handleLayerVisibilityChange s i) = historyIndex s + 1
       \<and> length (layers (handleLayerVisibilityChange s i)) = length (layers s)
       \<and> (\<forall>k < length (layers s).
             id_layer (layers (handleLayerVisibilityChange s i) ! k) = id_layer (layers s ! k)
           \<and> file_layer (layers (handleLayerVisibilityChange s i) ! k) = file_layer (layers s ! k)
           \<and> objectUrl (layers (handleLayerVisibilityChange s i) ! k) = objectUrl (layers s ! k)
           \<and> name (layers (handleLayerVisibilityChange s i) ! k) = name (layers s ! k)
           \<and> opacity (layers (handleLayerVisibilityChange s i) ! k) = opacity (layers s ! k)
           \<and> isVisible (layers (handleLayerVisibilityChange s i) ! k) =
                (if id_layer (layers s ! k) = i then \<not> isVisible (layers s ! k)
                 else isVisible (layers s ! k)))
       \<and> (\<exists>k < length (layers s). id_layer (layers s ! k) = i)"
proof -
  have sl: "slice0 (history s) (historyIndex s + 1) = take (nat (historyIndex s + 1)) (history s)"
    using assms(1) by (simp add: slice0_nonneg)
  have len: "int (length (take (nat (historyIndex s + 1)) (history s))) = historyIndex s + 1"
    using assms(1,2) by simp
  have h: "history (handleLayerVisibilityChange s i) =
           take (nat (historyIndex s + 1)) (history s) @ [layers (handleLayerVisibilityChange s i)]"
    by (simp add: handleLayerVisibilityChange_def commitChanges_history commitChanges_layers sl)
  have ix: "historyIndex (handleLayerVisibilityChange s i) = historyIndex s + 1"
    using len by (simp add: handleLayerVisibilityChange_def commitChanges_historyIndex sl)
  have ex: "\<exists>k < length (layers s). id_layer (layers s ! k) = i"
    using assms(3) by (auto simp: in_set_conv_nth)
  show ?thesis
    using h ix ex by (simp add: handleLayerVisibilityChange_layers)
qed

theorem visibility_toggle_is_a_commit_witness:
  "- 1 \<le> historyIndex afterOneUndo
   \<and> historyIndex afterOneUndo < int (length (history afterOneUndo))
   \<and> ''b'' \<in> id_layer ` set (layers afterOneUndo)
   \<and> history (handleLayerVisibilityChange afterOneUndo ''b'') =
       [[plainLayer ''a'' 1], [plainLayer ''a'' 1, plainLayer ''b'' 2],
        [plainLayer ''a'' 1, (plainLayer ''b'' 2)\<lparr>isVisible := False\<rparr>]]
   \<and> historyIndex (handleLayerVisibilityChange afterOneUndo ''b'') = 2"
  using visibility_toggle_is_a_commit [of afterOneUndo "''b''"]
  by (simp add: afterOneUndo_def threeLayers_def initialState_def plainLayer_def
      handleLayerVisibilityChange_layers)

section \<open>C9: removing a layer\<close>

lemma unique_id_occurs_once:
  "distinct (map f xs) \<Longrightarrow> i \<in> f ` set xs \<Longrightarrow> length (filter (\<lambda>l. f l = i) xs) = 1"
proof (induction xs)
  case Nil
  then show ?case by simp
next
  case (Cons x xs)
  show ?case
  proof (cases "f x = i")
    case True
    with Cons.prems(1) have "\<forall>l \<in> set xs. f l \<noteq> i" by (force simp: image_iff)
    then have "filter (\<lambda>l. f l = i) xs = []" by (simp add: filter_empty_conv)
    with True show ?thesis by simp
  next
    case False
    with Cons show ?thesis by auto
  qed
qed

text \<open>
  Claim C9, amended. Let the ids of the layers be distinct and \<open>i\<close> be one of them.
  Removing \<open>i\<close> from a layer set of size one empties the layers, the history and the
  active-layer reference and sets the cursor to \<open>-1\<close>. Removing it from a larger set
  takes that layer out, commits the remaining layers (history cut after the cursor,
  the new list appended, cursor on it) and, when \<open>i\<close> was the active layer, makes the
  topmost remaining layer active; when another layer was active, it stays active.
\<close>

theorem delete_layer_effect:
  assumes "distinct (map id_layer (layers s))" and "i \<in> id_layer ` set (layers s)"
    and "- 1 \<le> historyIndex s"
  shows "(length (layers s) = 1 \<longrightarrow>
            layers (handleDeleteLayer s i) = [] \<and> history (handleDeleteLayer s i) = []
          \<and> historyIndex (handleDeleteLayer s i) = - 1
          \<and> activeLayerId (handleDeleteLayer s i) = None)
       \<and> (length (layers s) > 1 \<longrightarrow>
            layers (handleDeleteLayer s i) = filter (\<lambda>l. id_layer l \<noteq> i) (layers s)
          \<and> length (layers (handleDeleteLayer s i)) = length (layers s) - 1
          \<and> history (handleDeleteLayer s i) =
               take (nat (historyIndex s + 1)) (history s) @ [layers (handleDeleteLayer s i)]
          \<and> historyIndex (handleDeleteLayer s i) =
               int (length (history (handleDeleteLayer s i))) - 1
          \<and> activeLayerId (handleDeleteLayer s i) =
               (if activeLayerId s = Some i
                then Some (id_layer (last (layers (handleDeleteLayer s i))))
                else activeLayerId s))"
proof -
  let ?new = "filter (\<lambda>l. id_layer l \<noteq> i) (layers s)"
  have count: "length (filter (\<lambda>l. id_layer l = i) (layers s)) = 1"
    using assms(1,2) by (rule unique_id_occurs_once)
  have sum: "length (layers s) = length (filter (\<lambda>l. id_layer l = i) (layers s)) + length ?new"
    using sum_length_filter_compl [of "\<lambda>l. id_layer l = i" "layers s"] by simp
  have len: "length ?new = length (layers s) - 1"
    using count sum by simp
  have sl: "slice0 (history s) (historyIndex s + 1) = take (nat (historyIndex s + 1)) (history s)"
    using assms(3) by (simp add: slice0_nonneg)
  have one: "length (layers s) = 1 \<longrightarrow>
            layers (handleDeleteLayer s i) = [] \<and> history (handleDeleteLayer s i) = []
          \<and> historyIndex (handleDeleteLayer s i) = - 1
          \<and> activeLayerId (handleDeleteLayer s i) = None"
  proof
    assume "length (layers s) = 1"
    with len have "?new = []" by simp
    then show "layers (handleDeleteLayer s i) = [] \<and> history (handleDeleteLayer s i) = []
          \<and> historyIndex (handleDeleteLayer s i) = - 1
          \<and> activeLayerId (handleDeleteLayer s i) = None"
      by (simp add: handleDeleteLayer_def Let_def)
  qed
  have many: "length (layers s) > 1 \<longrightarrow>
            layers (handleDeleteLayer s i) = ?new
          \<and> length (layers (handleDeleteLayer s i)) = length (layers s) - 1
          \<and> history (handleDeleteLayer s i) =
               take (nat (historyIndex s + 1)) (history s) @ [layers (handleDeleteLayer s i)]
          \<and> historyIndex (handleDeleteLayer s i) =
               int (length (history (handleDeleteLayer s i))) - 1
          \<and> activeLayerId (handleDeleteLayer s i) =
               (if activeLayerId s = Some i
                then Some (id_layer (last (layers (handleDeleteLayer s i))))
                else activeLayerId s)"
  proof
    assume "length (layers s) > 1"
    then have ne: "length ?new > 0" using len by simp
    then have eq: "handleDeleteLayer s i =
        (commitChanges s ?new True)\<lparr>activeLayerId :=
           (if activeLayerId s = Some i then Some (id_layer (last ?new)) else activeLayerId s)\<rparr>"
      by (simp add: handleDeleteLayer_def Let_def)
    show "layers (handleDeleteLayer s i) = ?new
          \<and> length (layers (handleDeleteLayer s i)) = length (layers s) - 1
          \<and> history (handleDeleteLayer s i) =
               take (nat (historyIndex s + 1)) (history s) @ [layers (handleDeleteLayer s i)]
          \<and> historyIndex (handleDeleteLayer s i) =
               int (length (history (handleDeleteLayer s i))) - 1
          \<and> activeLayerId (handleDeleteLayer s i) =
               (if activeLayerId s = Some i
                then Some (id_layer (last (layers (handleDeleteLayer s i))))
                else activeLayerId s)"
      unfolding eq using len
      by (simp add: commitChanges_layers commitChanges_history commitChanges_historyIndex sl)
  qed
  from one many show ?thesis by blast
qed

text \<open>
  The claim as stated fails where the removed layer is not the active one: with layers
  \<open>a\<close>, \<open>b\<close>, \<open>c\<close> and \<open>a\<close> active, removing \<open>b\<close> leaves \<open>a\<close> active, although
  the topmost remaining layer is \<open>c\<close>.
\<close>

theorem delete_layer_selects_topmost_counterexample:
  "length (layers threeLayers) > 1
   \<and> ''b'' \<in> id_layer ` set (layers threeLayers)
   \<and> activeLayerId (handleDeleteLayer threeLayers ''b'') = Some ''a''
   \<and> id_layer (last (layers (handleDeleteLayer threeLayers ''b''))) = ''c''
   \<and> activeLayerId (handleDeleteLayer threeLayers ''b'')
        \<noteq> Some (id_layer (last (layers (handleDeleteLayer threeLayers ''b''))))"
  by (simp add: handleDeleteLayer_def threeLayers_def initialState_def plainLayer_def
      Let_def commitChanges_layers commitChanges_frame)

theorem delete_layer_effect_witness:
  "distinct (map id_layer (layers threeLayers)) \<and> ''a'' \<in> id_layer ` set (layers threeLayers)
   \<and> - 1 \<le> historyIndex threeLayers
   \<and> distinct (map id_layer (layers uploadedA))
   \<and> id_layer (hd (layers uploadedA)) \<in> id_layer ` set (layers uploadedA)
   \<and> - 1 \<le> historyIndex uploadedA
   \<and> length (layers uploadedA) = 1
   \<and> layers (handleDeleteLayer uploadedA (id_layer (hd (layers uploadedA)))) = []
   \<and> history (handleDeleteLayer uploadedA (id_layer (hd (layers uploadedA)))) = []
   \<and> historyIndex (handleDeleteLayer uploadedA (id_layer (hd (layers uploadedA)))) = - 1
   \<and> activeLayerId (handleDeleteLayer uploadedA (id_layer (hd (layers uploadedA)))) = None
   \<and> length (layers threeLayers) > 1
   \<and> layers (handleDeleteLayer threeLayers ''a'') = [plainLayer ''b'' 2, plainLayer ''c'' 3]
   \<and> length (history (handleDeleteLayer threeLayers ''a'')) = 4
   \<and> historyIndex (handleDeleteLayer threeLayers ''a'') = 3
   \<and> activeLayerId (handleDeleteLayer threeLayers ''a'') = Some ''c''"
  using delete_layer_effect [of threeLayers "''a''"]
    delete_layer_effect [of uploadedA "id_layer (hd (layers uploadedA))"]
  by (simp add: threeLayers_def uploadedA_def handleImageUpload_def initialState_def
      plainLayer_def Let_def)

section \<open>C4: the compositor skips invisible layers\<close>

lemma drawLayers_filter:
  "drawLayers w (filter isVisible ls) canvas = drawLayers w ls canvas"
  by (induction ls arbitrary: canvas) (auto split: option.splits)

lemma find_filter_same: "find P (filter P ls) = find P ls"
  by (induction ls) auto

lemma find_none_filter: "find P ls = None \<longleftrightarrow> filter P ls = []"
  by (induction ls) auto

text \<open>
  Claim C4. Flattening a layer list gives the same outcome as flattening the sublist
  of its visible layers: the same \<^verbatim>\<open>null\<close>, the same rejection, or the encoding of
  a canvas of the same size that received the same draw calls in the same order. With
  no visible layer the outcome is \<^verbatim>\<open>null\<close>. In particular a visible layer \<open>v\<close>
  together with an invisible layer \<open>h\<close>, in either order, flattens as \<open>v\<close> alone does.
\<close>

theorem flatten_ignores_invisible_layers:
  "flattenLayersForCrop w ls = flattenLayersForCrop w (filter isVisible ls)
   \<and> ((\<forall>l \<in> set ls. \<not> isVisible l) \<longrightarrow> flattenLayersForCrop w ls = Resolved None)
   \<and> (isVisible v \<and> \<not> isVisible h \<longrightarrow>
        flattenLayersForCrop w [v, h] = flattenLayersForCrop w [v]
      \<and> flattenLayersForCrop w [h, v] = flattenLayersForCrop w [v])"
proof -
  have eq: "flattenLayersForCrop w xs = flattenLayersForCrop w (filter isVisible xs)" for xs
  proof (cases "filter isVisible xs = []")
    case True
    then have "find isVisible xs = None" by (simp add: find_none_filter)
    with True show ?thesis by (simp add: flattenLayersForCrop_def)
  next
    case False
    then have "xs \<noteq> []" by auto
    with False show ?thesis
      by (simp add: flattenLayersForCrop_def find_filter_same drawLayers_filter
          split: option.splits)
  qed
  have none: "(\<forall>l \<in> set ls. \<not> isVisible l) \<longrightarrow> flattenLayersForCrop w ls = Resolved None"
  proof
    assume "\<forall>l \<in> set ls. \<not> isVisible l"
    then have "filter isVisible ls = []" by (simp add: filter_empty_conv)
    then have "find isVisible ls = None" by (simp add: find_none_filter)
    then show "flattenLayersForCrop w ls = Resolved None"
      by (simp add: flattenLayersForCrop_def)
  qed
  have two: "isVisible v \<and> \<not> isVisible h \<longrightarrow>
        flattenLayersForCrop w [v, h] = flattenLayersForCrop w [v]
      \<and> flattenLayersForCrop w [h, v] = flattenLayersForCrop w [v]"
    using eq [of "[v, h]"] eq [of "[h, v]"] by simp
  from eq [of ls] none two show ?thesis by blast
qed

lemma plainLayer_sel:
  "isVisible (plainLayer i r)" "opacity (plainLayer i r) = 100" "id_layer (plainLayer i r) = i"
  "objectUrl (plainLayer i r) = ''blob:'' @ i"
  by (simp_all add: plainLayer_def)

lemma sunny_flatten_one:
  "flattenLayersForCrop sunnyWorld [plainLayer ''a'' 1] = Resolved (Some ''data:image/png;base64,blob:a+'')"
  by (simp add: flattenLayersForCrop_def sunnyWorld_def plainLayer_def drawnSources_def)

theorem flatten_ignores_invisible_layers_witness:
  "isVisible (plainLayer ''a'' 1) \<and> opacity (plainLayer ''a'' 1) = 100
   \<and> \<not> isVisible ((plainLayer ''b'' 2)\<lparr>isVisible := False\<rparr>)
   \<and> filter isVisible [(plainLayer ''b'' 2)\<lparr>isVisible := False\<rparr>] = []
   \<and> flattenLayersForCrop sunnyWorld [(plainLayer ''b'' 2)\<lparr>isVisible := False\<rparr>] = Resolved None
   \<and> flattenLayersForCrop sunnyWorld [plainLayer ''a'' 1, (plainLayer ''b'' 2)\<lparr>isVisible := False\<rparr>]
       = Resolved (Some ''data:image/png;base64,blob:a+'')
   \<and> flattenLayersForCrop sunnyWorld [plainLayer ''a'' 1]
       = Resolved (Some ''data:image/png;base64,blob:a+'')"
  using flatten_ignores_invisible_layers
    [of sunnyWorld "[(plainLayer ''b'' 2)\<lparr>isVisible := False\<rparr>]"
        "plainLayer ''a'' 1" "(plainLayer ''b'' 2)\<lparr>isVisible := False\<rparr>"]
    sunny_flatten_one
  by (auto simp add: plainLayer_sel)

section \<open>C7: opacity changes and the history\<close>

lemma handleLayerOpacityChange_history:
  "history (handleLayerOpacityChange s i v) = history s"
  "historyIndex (handleLayerOpacityChange s i v) = historyIndex s"
  by (simp_all add: handleLayerOpacityChange_def commitChanges_no_history)

text \<open>
  What the two functions do by themselves: no sequence of opacity changes touches the
  history or the cursor, and \<open>commitOpacityChange\<close>, were it called, would append the
  layers on display after the cursor.
\<close>

lemma scrubbing_keeps_history:
  "history (foldl (\<lambda>s (i, v). handleLayerOpacityChange s i v) s changes) = history s
   \<and> historyIndex (foldl (\<lambda>s (i, v). handleLayerOpacityChange s i v) s changes) = historyIndex s"
  by (induction changes arbitrary: s) (auto simp: handleLayerOpacityChange_history)

lemma commitOpacityChange_appends:
  "history (commitOpacityChange s) = slice0 (history s) (historyIndex s + 1) @ [layers s]"
  "historyIndex (commitOpacityChange s) = int (length (history (commitOpacityChange s))) - 1"
  "layers (commitOpacityChange s) = layers s"
  by (simp_all add: commitOpacityChange_def Let_def)

lemma uploadedA_layers:
  "layers uploadedA = [\<lparr>id_layer = ''layer-'' @ decimal 1000, file_layer = imageA,
      objectUrl = ''blob:A.png'', name = ''Background'', opacity = 100, isVisible = True\<rparr>]"
  "history uploadedA = [layers uploadedA]"
  "historyIndex uploadedA = 0"
  "activeLayerId uploadedA = Some (''layer-'' @ decimal 1000)"
  by (simp_all add: uploadedA_def handleImageUpload_def sunnyWorld_def imageA_def
      imageFile_def Let_def)

text \<open>
  Claim C7 at a concrete input. Image A is uploaded, the opacity slider of its layer is
  dragged to 70 and to 40, and the mouse is released. The history still holds the one
  snapshot of the upload, with opacity 100, and the cursor is 0, while the layer on
  display has opacity 40: the release has committed nothing.
\<close>

theorem opacity_release_commits_nothing:
  "history (foldl (\<lambda>s. opacitySlider s (hd (layers uploadedA))) uploadedA
              [OnChange 70, OnChange 40, OnMouseUp]) = history uploadedA
   \<and> map (map opacity) (history (foldl (\<lambda>s. opacitySlider s (hd (layers uploadedA))) uploadedA
              [OnChange 70, OnChange 40, OnMouseUp])) = [[100]]
   \<and> historyIndex (foldl (\<lambda>s. opacitySlider s (hd (layers uploadedA))) uploadedA
              [OnChange 70, OnChange 40, OnMouseUp]) = 0
   \<and> map opacity (layers (foldl (\<lambda>s. opacitySlider s (hd (layers uploadedA))) uploadedA
              [OnChange 70, OnChange 40, OnMouseUp])) = [40]"
  by (simp add: opacitySlider_def handleLayerOpacityChange_def commitChanges_no_history
      commitChanges_layers uploadedA_layers)

section \<open>Evaluating the concrete values\<close>

lemma trim_remove_object: "trim ''remove object'' = ''remove object''"
  by code_simp

lemma fileTypeOf_png: "fileTypeOf ''image/png'' = ''image/png''"
  by code_simp

lemma sunny_dataURL:
  "dataURLtoFile sunnyWorld ''data:image/png;base64,QUJD'' n =
     Inr \<lparr>fileRef = 99, fileBits = ''QUJD'', fileName = n, fileType = ''image/png''\<rparr>"
  by (simp add: dataURLtoFile_def sunnyWorld_def fileTypeOf_png Let_def)

lemma retouchReady_fields:
  "layers retouchReady = layers uploadedA"
  "history retouchReady = history uploadedA"
  "historyIndex retouchReady = 0"
  "activeLayerId retouchReady = Some (''layer-'' @ decimal 1000)"
  "prompt retouchReady = ''remove object''"
  "editHotspot retouchReady = Some (120, 80)"
  "displayHotspot retouchReady = Some (120, 80)"
  "error retouchReady = None"
  "isLoading retouchReady = False"
  by (simp_all add: retouchReady_def handleImageClick_def uploadedA_layers
      uploadedA_def handleImageUpload_def initialState_def sunnyWorld_def Let_def)

lemma retouchReady_activeLayer: "activeLayer retouchReady = Some (hd (layers uploadedA))"
  by (simp add: activeLayer_def retouchReady_fields uploadedA_layers)

section \<open>C3: a failing transform leaves the image intact\<close>

lemma caught_busy:
  "caught label (s\<lparr>isLoading := True, error := None\<rparr>) err =
     s\<lparr>error := Some (label @ '' '' @ errorMessage err), isLoading := False\<rparr>"
  by (simp add: caught_def)

text \<open>
  Claim C3, amended. Let the transform service reject every request with the thrown
  value \<open>err\<close>. Then each of the five handlers, once its validation has passed, ends
  in the state it started from with only two cells changed: the busy flag is off and
  the error is the handler's own failure text (the operation's name with "failed", in
  Thai), a space, and then the \<^verbatim>\<open>message\<close> of \<open>err\<close> when \<open>err\<close> is an
  \<^verbatim>\<open>Error\<close>, and the fixed text \<^verbatim>\<open>An unknown error occurred.\<close> when it is any
  other value, whatever that value is. Whether or not the validation passes, the
  layers, the history and the cursor are as before.
\<close>

theorem transform_failure_leaves_state:
  assumes "\<forall>r. service w r = Rejected err"
  shows "(activeLayer s \<noteq> None \<and> trim (prompt s) \<noteq> [] \<and> editHotspot s \<noteq> None \<longrightarrow>
            handleGenerate w s =
              s\<lparr>error := Some (msg_generate_failed @ '' '' @ errorMessage err), isLoading := False\<rparr>)
       \<and> (activeLayer s \<noteq> None \<longrightarrow>
            handleApplyFilter w s p q =
              s\<lparr>error := Some (msg_filter_failed @ '' '' @ errorMessage err), isLoading := False\<rparr>)
       \<and> (activeLayer s \<noteq> None \<longrightarrow>
            handleApplyAdjustment w s p q =
              s\<lparr>error := Some (msg_adjust_failed @ '' '' @ errorMessage err), isLoading := False\<rparr>)
       \<and> (activeLayer s \<noteq> None \<and> secondaryImage s \<noteq> None \<longrightarrow>
            handleApplyFaceSwap w s =
              s\<lparr>error := Some (msg_faceswap_failed @ '' '' @ errorMessage err), isLoading := False\<rparr>)
       \<and> (activeLayer s \<noteq> None \<longrightarrow>
            handleRemoveBackground w s q =
              s\<lparr>error := Some (msg_removebg_failed @ '' '' @ errorMessage err), isLoading := False\<rparr>)
       \<and> contentUnchanged s (handleGenerate w s)
       \<and> contentUnchanged s (handleApplyFilter w s p q)
       \<and> contentUnchanged s (handleApplyAdjustment w s p q)
       \<and> contentUnchanged s (handleApplyFaceSwap w s)
       \<and> contentUnchanged s (handleRemoveBackground w s q)
       \<and> (\<forall>m. err = ErrorObj m \<longrightarrow> errorMessage err = m)
       \<and> (\<forall>v. err = NonError v \<longrightarrow> errorMessage err = ''An unknown error occurred.'')"
proof -
  have rej: "service w r = Rejected err" for r using assms by simp
  have g: "activeLayer s \<noteq> None \<and> trim (prompt s) \<noteq> [] \<and> editHotspot s \<noteq> None \<longrightarrow>
            handleGenerate w s =
              s\<lparr>error := Some (msg_generate_failed @ '' '' @ errorMessage err), isLoading := False\<rparr>"
    by (auto simp: handleGenerate_def rej caught_busy Let_def)
  have f: "activeLayer s \<noteq> None \<longrightarrow>
            handleApplyFilter w s p q =
              s\<lparr>error := Some (msg_filter_failed @ '' '' @ errorMessage err), isLoading := False\<rparr>"
    by (auto simp: handleApplyFilter_def rej caught_busy Let_def)
  have a: "activeLayer s \<noteq> None \<longrightarrow>
            handleApplyAdjustment w s p q =
              s\<lparr>error := Some (msg_adjust_failed @ '' '' @ errorMessage err), isLoading := False\<rparr>"
    by (auto simp: handleApplyAdjustment_def rej caught_busy Let_def)
  have fs: "activeLayer s \<noteq> None \<and> secondaryImage s \<noteq> None \<longrightarrow>
            handleApplyFaceSwap w s =
              s\<lparr>error := Some (msg_faceswap_failed @ '' '' @ errorMessage err), isLoading := False\<rparr>"
    by (auto simp: handleApplyFaceSwap_def rej caught_busy Let_def)
  have rb: "activeLayer s \<noteq> None \<longrightarrow>
            handleRemoveBackground w s q =
              s\<lparr>error := Some (msg_removebg_failed @ '' '' @ errorMessage err), isLoading := False\<rparr>"
    by (auto simp: handleRemoveBackground_def rej caught_busy Let_def)
  have cg: "contentUnchanged s (handleGenerate w s)"
    by (simp add: handleGenerate_def rej caught_busy contentUnchanged_def Let_def
        split: option.splits)
  have cf: "contentUnchanged s (handleApplyFilter w s p q)"
    by (simp add: handleApplyFilter_def rej caught_busy contentUnchanged_def Let_def
        split: option.splits)
  have ca: "contentUnchanged s (handleApplyAdjustment w s p q)"
    by (simp add: handleApplyAdjustment_def rej caught_busy contentUnchanged_def Let_def
        split: option.splits)
  have cfs: "contentUnchanged s (handleApplyFaceSwap w s)"
    by (simp add: handleApplyFaceSwap_def rej caught_busy contentUnchanged_def Let_def
        split: option.splits)
  have crb: "contentUnchanged s (handleRemoveBackground w s q)"
    by (simp add: handleRemoveBackground_def rej caught_busy contentUnchanged_def Let_def
        split: option.splits)
  have em: "\<forall>m. err = ErrorObj m \<longrightarrow> errorMessage err = m"
    by (simp add: errorMessage_def)
  have eo: "\<forall>v. err = NonError v \<longrightarrow> errorMessage err = ''An unknown error occurred.''"
    by (simp add: errorMessage_def)
  from g f a fs rb cg cf ca cfs crb em eo show ?thesis by blast
qed

theorem transform_failure_leaves_state_witness:
  "(\<forall>r. service failingWorld r = Rejected (ErrorObj ''quota exceeded''))
   \<and> activeLayer (retouchReady\<lparr>secondaryImage := Some imageA\<rparr>) \<noteq> None
   \<and> trim (prompt (retouchReady\<lparr>secondaryImage := Some imageA\<rparr>)) \<noteq> []
   \<and> editHotspot (retouchReady\<lparr>secondaryImage := Some imageA\<rparr>) \<noteq> None
   \<and> secondaryImage (retouchReady\<lparr>secondaryImage := Some imageA\<rparr>) \<noteq> None
   \<and> handleGenerate failingWorld (retouchReady\<lparr>secondaryImage := Some imageA\<rparr>) =
        retouchReady\<lparr>secondaryImage := Some imageA,
          error := Some (msg_generate_failed @ '' quota exceeded''), isLoading := False\<rparr>
   \<and> handleApplyFaceSwap failingWorld (retouchReady\<lparr>secondaryImage := Some imageA\<rparr>) =
        retouchReady\<lparr>secondaryImage := Some imageA,
          error := Some (msg_faceswap_failed @ '' quota exceeded''), isLoading := False\<rparr>
   \<and> history (handleApplyFilter failingWorld (retouchReady\<lparr>secondaryImage := Some imageA\<rparr>)
         ''sepia'' []) = history uploadedA"
  using transform_failure_leaves_state
    [of failingWorld "ErrorObj ''quota exceeded''" "retouchReady\<lparr>secondaryImage := Some imageA\<rparr>"
        "''sepia''" "[]"]
  by (simp add: failingWorld_def activeLayer_def retouchReady_fields uploadedA_layers
      trim_remove_object errorMessage_def contentUnchanged_def)

text \<open>
  The claim as stated fails for a thrown value that is not an \<^verbatim>\<open>Error\<close>: the
  service rejects the filter request with the string "quota exceeded", and the message
  shown is the failure text of the filter followed by the fixed text, in which the
  thrown text does not occur. Layers, history and cursor are as before.
\<close>

theorem non_error_rejection_loses_its_text_counterexample:
  "service stringThrowingWorld (FilteredImage imageA ''sepia'' [] False) =
     Rejected (NonError ''quota exceeded'')
   \<and> error (handleApplyFilter stringThrowingWorld retouchReady ''sepia'' []) =
       Some (msg_filter_failed @ '' An unknown error occurred.'')
   \<and> \<not> sublist ''quota exceeded'' (msg_filter_failed @ '' An unknown error occurred.'')
   \<and> contentUnchanged retouchReady (handleApplyFilter stringThrowingWorld retouchReady ''sepia'' [])"
proof -
  have s: "service stringThrowingWorld r = Rejected (NonError ''quota exceeded'')" for r
    by (simp add: stringThrowingWorld_def)
  have e: "error (handleApplyFilter stringThrowingWorld retouchReady ''sepia'' []) =
       Some (msg_filter_failed @ '' An unknown error occurred.'')"
    by (simp add: handleApplyFilter_def retouchReady_activeLayer s caught_def errorMessage_def
        Let_def)
  have n: "\<not> sublist ''quota exceeded'' (msg_filter_failed @ '' An unknown error occurred.'')"
    by code_simp
  have c: "contentUnchanged retouchReady (handleApplyFilter stringThrowingWorld retouchReady ''sepia'' [])"
    by (simp add: handleApplyFilter_def retouchReady_activeLayer s caught_def
        contentUnchanged_def Let_def)
  from s e n c show ?thesis by simp
qed

section \<open>The ways a handler can end\<close>

text \<open>
  Every transform handler ends in one of three ways: a validation message, the catch
  block, or a commit. The crop handler can also stay pending.
\<close>

lemma handleGenerate_shape:
  "(\<exists>m. handleGenerate w s = s\<lparr>error := Some m\<rparr>)
   \<or> (\<exists>err. handleGenerate w s = caught msg_generate_failed (s\<lparr>isLoading := True, error := None\<rparr>) err)
   \<or> (\<exists>f. handleGenerate w s =
          (commitChanges (s\<lparr>isLoading := True, error := None\<rparr>) (updatedLayers w s f) True)
             \<lparr>prompt := [], editHotspot := None, displayHotspot := None, isLoading := False\<rparr>)"
  unfolding handleGenerate_def Let_def
  by (auto split: option.splits outcome.splits sum.splits)

lemma handleApplyFilter_shape:
  "(\<exists>m. handleApplyFilter w s p q = s\<lparr>error := Some m\<rparr>)
   \<or> (\<exists>err. handleApplyFilter w s p q = caught msg_filter_failed (s\<lparr>isLoading := True, error := None\<rparr>) err)
   \<or> (\<exists>f. handleApplyFilter w s p q =
          (commitChanges (s\<lparr>isLoading := True, error := None\<rparr>) (updatedLayers w s f) True)\<lparr>isLoading := False\<rparr>)"
  unfolding handleApplyFilter_def Let_def
  by (auto split: option.splits outcome.splits sum.splits)

lemma handleApplyAdjustment_shape:
  "(\<exists>m. handleApplyAdjustment w s p q = s\<lparr>error := Some m\<rparr>)
   \<or> (\<exists>err. handleApplyAdjustment w s p q = caught msg_adjust_failed (s\<lparr>isLoading := True, error := None\<rparr>) err)
   \<or> (\<exists>f. handleApplyAdjustment w s p q =
          (commitChanges (s\<lparr>isLoading := True, error := None\<rparr>) (updatedLayers w s f) True)\<lparr>isLoading := False\<rparr>)"
  unfolding handleApplyAdjustment_def Let_def
  by (auto split: option.splits outcome.splits sum.splits)

lemma handleApplyFaceSwap_shape:
  "(\<exists>m. handleApplyFaceSwap w s = s\<lparr>error := Some m\<rparr>)
   \<or> (\<exists>err. handleApplyFaceSwap w s = caught msg_faceswap_failed (s\<lparr>isLoading := True, error := None\<rparr>) err)
   \<or> (\<exists>f. handleApplyFaceSwap w s =
          (commitChanges (s\<lparr>isLoading := True, error := None\<rparr>) (updatedLayers w s f) True)\<lparr>isLoading := False\<rparr>)"
  unfolding handleApplyFaceSwap_def Let_def
  by (auto split: option.splits outcome.splits sum.splits)

lemma handleRemoveBackground_shape:
  "(\<exists>m. handleRemoveBackground w s q = s\<lparr>error := Some m\<rparr>)
   \<or> (\<exists>err. handleRemoveBackground w s q = caught msg_removebg_failed (s\<lparr>isLoading := True, error := None\<rparr>) err)
   \<or> (\<exists>f. handleRemoveBackground w s q =
          (commitChanges (s\<lparr>isLoading := True, error := None\<rparr>) (updatedLayers w s f) True)\<lparr>isLoading := False\<rparr>)"
  unfolding handleRemoveBackground_def Let_def
  by (auto split: option.splits outcome.splits sum.splits)

lemma handleApplyCrop_shape:
  "(\<exists>m. handleApplyCrop w s = s\<lparr>error := Some m\<rparr>)
   \<or> handleApplyCrop w s = s\<lparr>isLoading := True, error := None\<rparr>
   \<or> (\<exists>err. handleApplyCrop w s = caught msg_crop_failed (s\<lparr>isLoading := True, error := None\<rparr>) err)
   \<or> (\<exists>l. handleApplyCrop w s =
          (commitChanges (s\<lparr>isLoading := True, error := None\<rparr>) [l] True)
             \<lparr>activeTab := Retouch, isLoading := False\<rparr>)"
  unfolding handleApplyCrop_def Let_def
  by (auto split: option.splits outcome.splits sum.splits prod.splits)

lemma outcome_rejected: "editOutcome b s (s\<lparr>error := Some m\<rparr>)"
  by (simp add: editOutcome_def succeeded_def contentUnchanged_def hotspotAndPromptKept_def)

lemma outcome_caught: "editOutcome b s (caught label (s\<lparr>isLoading := True, error := None\<rparr>) err)"
  by (simp add: editOutcome_def succeeded_def contentUnchanged_def hotspotAndPromptKept_def
      caught_def)

lemma outcome_pending: "editOutcome b s (s\<lparr>isLoading := True, error := None\<rparr>)"
  by (simp add: editOutcome_def succeeded_def contentUnchanged_def hotspotAndPromptKept_def)

lemma outcome_commit:
  "editOutcome False s
     ((commitChanges (s\<lparr>isLoading := True, error := None\<rparr>) nl True)\<lparr>isLoading := False\<rparr>)"
  by (simp add: editOutcome_def succeeded_def committed_def transientCleared_def
      hotspotAndPromptKept_def commitChanges_history commitChanges_historyIndex
      commitChanges_layers commitChanges_transient commitChanges_frame)

lemma outcome_commit_crop:
  "editOutcome False s
     ((commitChanges (s\<lparr>isLoading := True, error := None\<rparr>) nl True)
        \<lparr>activeTab := Retouch, isLoading := False\<rparr>)"
  by (simp add: editOutcome_def succeeded_def committed_def transientCleared_def
      hotspotAndPromptKept_def commitChanges_history commitChanges_historyIndex
      commitChanges_layers commitChanges_transient commitChanges_frame)

lemma outcome_commit_retouch:
  "editOutcome True s
     ((commitChanges (s\<lparr>isLoading := True, error := None\<rparr>) nl True)
        \<lparr>prompt := [], editHotspot := None, displayHotspot := None, isLoading := False\<rparr>)"
  by (simp add: editOutcome_def succeeded_def committed_def transientCleared_def
      hotspotAndPromptCleared_def commitChanges_history commitChanges_historyIndex
      commitChanges_layers commitChanges_transient commitChanges_frame)

lemmas outcome_shapes = outcome_rejected outcome_caught outcome_pending outcome_commit
  outcome_commit_crop outcome_commit_retouch

section \<open>C6: what a commit clears\<close>

lemma store_commit:
  "committed s ((commitChanges s nl True)\<lparr>activeLayerId := a\<rparr>)
   \<and> transientCleared ((commitChanges s nl True)\<lparr>activeLayerId := a\<rparr>)
   \<and> hotspotAndPromptKept s ((commitChanges s nl True)\<lparr>activeLayerId := a\<rparr>)"
  "committed s (commitChanges s nl True)
   \<and> transientCleared (commitChanges s nl True)
   \<and> hotspotAndPromptKept s (commitChanges s nl True)"
  by (simp_all add: committed_def transientCleared_def
      hotspotAndPromptKept_def commitChanges_history commitChanges_historyIndex
      commitChanges_layers commitChanges_transient commitChanges_frame)

text \<open>
  Claim C6, amended. Each of retouch, filter, adjust, face-swap, remove-background and
  crop either goes through (no error, not busy), and has then committed a snapshot and
  cleared these cells of the editor: the crop selection, the completed crop, the
  secondary reference image and the editor's own auxiliary instruction
  (\<open>additionalPrompt\<close>, the field of the retouch and face-swap tabs), and reset the
  scale to 100; or it has left layers, history, cursor, hotspot and instruction as
  they were. Adding a layer to a non-empty set, removing a layer that is not the last
  one, reordering and toggling visibility commit and clear the same cells. The hotspot
  and the instruction text are cleared by a retouch that goes through, and by that
  only: every other commit leaves them as they were. The auxiliary text that filter,
  adjust and remove-background work with is not among the cells cleared: it reaches
  the handler as an argument, and in \<open>RemoveBackgroundPanel\<close> it is the panel's own
  cell, which applying leaves as it was typed, whether the operation goes through or
  not.
\<close>

theorem commit_clears_transient_state:
  "editOutcome True s (handleGenerate w s)
   \<and> editOutcome False s (handleApplyFilter w s p q)
   \<and> editOutcome False s (handleApplyAdjustment w s p q)
   \<and> editOutcome False s (handleApplyFaceSwap w s)
   \<and> editOutcome False s (handleRemoveBackground w s q)
   \<and> editOutcome False s (handleApplyCrop w s)
   \<and> (layers s \<noteq> [] \<longrightarrow>
        committed s (handleAddLayer w s f) \<and> transientCleared (handleAddLayer w s f)
      \<and> hotspotAndPromptKept s (handleAddLayer w s f))
   \<and> (layers (handleDeleteLayer s i) \<noteq> [] \<longrightarrow>
        committed s (handleDeleteLayer s i) \<and> transientCleared (handleDeleteLayer s i)
      \<and> hotspotAndPromptKept s (handleDeleteLayer s i))
   \<and> committed s (handleReorderLayers s ls) \<and> transientCleared (handleReorderLayers s ls)
   \<and> hotspotAndPromptKept s (handleReorderLayers s ls)
   \<and> committed s (handleLayerVisibilityChange s i)
   \<and> transientCleared (handleLayerVisibilityChange s i)
   \<and> hotspotAndPromptKept s (handleLayerVisibilityChange s i)
   \<and> fst (handleApply w s panel) = handleRemoveBackground w s (additionalPrompt_panel panel)
   \<and> snd (handleApply w s panel) = panel"
proof -
  have g: "editOutcome True s (handleGenerate w s)"
    using handleGenerate_shape [of w s] by (auto simp: outcome_shapes)
  have f: "editOutcome False s (handleApplyFilter w s p q)"
    using handleApplyFilter_shape [of w s p q] by (auto simp: outcome_shapes)
  have a: "editOutcome False s (handleApplyAdjustment w s p q)"
    using handleApplyAdjustment_shape [of w s p q] by (auto simp: outcome_shapes)
  have fs: "editOutcome False s (handleApplyFaceSwap w s)"
    using handleApplyFaceSwap_shape [of w s] by (auto simp: outcome_shapes)
  have rb: "editOutcome False s (handleRemoveBackground w s q)"
    using handleRemoveBackground_shape [of w s q] by (auto simp: outcome_shapes)
  have c: "editOutcome False s (handleApplyCrop w s)"
    using handleApplyCrop_shape [of w s] by (auto simp: outcome_shapes)
  have add: "layers s \<noteq> [] \<longrightarrow>
        committed s (handleAddLayer w s f) \<and> transientCleared (handleAddLayer w s f)
      \<and> hotspotAndPromptKept s (handleAddLayer w s f)"
    by (simp add: handleAddLayer_def Let_def store_commit)
  have del: "layers (handleDeleteLayer s i) \<noteq> [] \<longrightarrow>
        committed s (handleDeleteLayer s i) \<and> transientCleared (handleDeleteLayer s i)
      \<and> hotspotAndPromptKept s (handleDeleteLayer s i)"
    by (simp add: handleDeleteLayer_def Let_def store_commit)
  have re: "committed s (handleReorderLayers s ls) \<and> transientCleared (handleReorderLayers s ls)
   \<and> hotspotAndPromptKept s (handleReorderLayers s ls)"
    by (simp add: handleReorderLayers_def store_commit)
  have vis: "committed s (handleLayerVisibilityChange s i)
   \<and> transientCleared (handleLayerVisibilityChange s i)
   \<and> hotspotAndPromptKept s (handleLayerVisibilityChange s i)"
    by (simp add: handleLayerVisibilityChange_def store_commit)
  have panel: "fst (handleApply w s panel) = handleRemoveBackground w s (additionalPrompt_panel panel)
   \<and> snd (handleApply w s panel) = panel"
    by (simp add: handleApply_def)
  from g f a fs rb c add del re vis panel show ?thesis by blast
qed

lemma fullyPrepared_activeLayer: "activeLayer fullyPrepared = Some (plainLayer ''a'' 1)"
  by (simp add: activeLayer_def fullyPrepared_def threeLayers_def initialState_def plainLayer_sel)

lemma sunny_service: "service sunnyWorld r = Resolved ''data:image/png;base64,QUJD''"
  by (simp add: sunnyWorld_def)

lemma fullyPrepared_fields:
  "prompt fullyPrepared = ''remove object''"
  "editHotspot fullyPrepared = Some (120, 80)"
  "displayHotspot fullyPrepared = Some (120, 80)"
  "secondaryImage fullyPrepared = Some imageA"
  "completedCrop fullyPrepared = Some someCrop"
  "flattenedImageForCropUrl fullyPrepared = Some ''data:image/png;base64,QUJD''"
  "layers fullyPrepared = [plainLayer ''a'' 1, plainLayer ''b'' 2, plainLayer ''c'' 3]"
  "historyIndex fullyPrepared = 2"
  "length (history fullyPrepared) = 3"
  by (simp_all add: fullyPrepared_def threeLayers_def initialState_def)

lemma sunny_crop_dataURL:
  "dataURLtoFile sunnyWorld (toDataURL sunnyWorld
      \<lparr>width_canvas = cw, height_canvas = ch,
       drawCalls = [DrawImage ''data:image/png;base64,QUJD'' 1 args]\<rparr>) n =
     Inr \<lparr>fileRef = 99, fileBits = ''data:image/png;base64'', fileName = n,
          fileType = ''image/png''\<rparr>"
  by (simp add: dataURLtoFile_def sunnyWorld_def drawnSources_def fileTypeOf_png Let_def)

lemma fullyPrepared_succeeds:
  "succeeded (handleGenerate sunnyWorld fullyPrepared)"
  "succeeded (handleApplyFilter sunnyWorld fullyPrepared ''sepia'' [])"
  "succeeded (handleApplyAdjustment sunnyWorld fullyPrepared ''warmer'' [])"
  "succeeded (handleApplyFaceSwap sunnyWorld fullyPrepared)"
  "succeeded (handleRemoveBackground sunnyWorld fullyPrepared [])"
  by (simp_all add: succeeded_def handleGenerate_def handleApplyFilter_def
      handleApplyAdjustment_def handleApplyFaceSwap_def handleRemoveBackground_def
      fullyPrepared_activeLayer fullyPrepared_fields trim_remove_object sunny_service
      sunny_dataURL commitChanges_frame Let_def)

lemma fullyPrepared_crop_succeeds: "succeeded (handleApplyCrop sunnyWorld fullyPrepared)"
proof -
  have "loadImage sunnyWorld u = Some \<lparr>naturalWidth = 640, naturalHeight = 480,
                                width_img = 320, height_img = 240\<rparr>" for u
    by (simp add: sunnyWorld_def)
  moreover have "getContext2d sunnyWorld" by (simp add: sunnyWorld_def)
  ultimately show ?thesis
    by (simp add: succeeded_def handleApplyCrop_def fullyPrepared_activeLayer
        fullyPrepared_fields sunny_crop_dataURL commitChanges_frame Let_def)
qed

theorem commit_clears_transient_state_witness:
  "succeeded (handleGenerate sunnyWorld fullyPrepared)
   \<and> succeeded (handleApplyFilter sunnyWorld fullyPrepared ''sepia'' [])
   \<and> succeeded (handleApplyAdjustment sunnyWorld fullyPrepared ''sepia'' [])
   \<and> succeeded (handleApplyFaceSwap sunnyWorld fullyPrepared)
   \<and> succeeded (handleRemoveBackground sunnyWorld fullyPrepared [])
   \<and> succeeded (handleApplyCrop sunnyWorld fullyPrepared)
   \<and> layers fullyPrepared \<noteq> []
   \<and> layers (handleDeleteLayer fullyPrepared ''b'') \<noteq> []
   \<and> transientCleared (handleGenerate sunnyWorld fullyPrepared)
   \<and> hotspotAndPromptCleared (handleGenerate sunnyWorld fullyPrepared)
   \<and> committed fullyPrepared (handleApplyFilter sunnyWorld fullyPrepared ''sepia'' [])
   \<and> transientCleared (handleApplyFilter sunnyWorld fullyPrepared ''sepia'' [])
   \<and> hotspotAndPromptKept fullyPrepared (handleApplyFilter sunnyWorld fullyPrepared ''sepia'' [])
   \<and> transientCleared (handleApplyCrop sunnyWorld fullyPrepared)
   \<and> transientCleared (handleDeleteLayer fullyPrepared ''b'')
   \<and> transientCleared (handleAddLayer sunnyWorld fullyPrepared imageA)
   \<and> succeeded (fst (handleApply sunnyWorld fullyPrepared
                        \<lparr>additionalPrompt_panel = ''keep the shadow''\<rparr>))
   \<and> additionalPrompt (fst (handleApply sunnyWorld fullyPrepared
                        \<lparr>additionalPrompt_panel = ''keep the shadow''\<rparr>)) = []
   \<and> additionalPrompt_panel (snd (handleApply sunnyWorld fullyPrepared
                        \<lparr>additionalPrompt_panel = ''keep the shadow''\<rparr>)) = ''keep the shadow''"
proof -
  have pn: "succeeded (handleRemoveBackground sunnyWorld fullyPrepared ''keep the shadow'')
     \<and> additionalPrompt (handleRemoveBackground sunnyWorld fullyPrepared ''keep the shadow'') = []"
    by (simp add: succeeded_def handleRemoveBackground_def fullyPrepared_activeLayer
        sunny_service sunny_dataURL commitChanges_frame commitChanges_transient Let_def)
  have del: "layers (handleDeleteLayer fullyPrepared ''b'') \<noteq> []"
    by (simp add: handleDeleteLayer_def fullyPrepared_fields plainLayer_sel Let_def
        commitChanges_layers)
  have s2: "succeeded (handleApplyAdjustment sunnyWorld fullyPrepared ''sepia'' [])"
    by (simp add: succeeded_def handleApplyAdjustment_def fullyPrepared_activeLayer
        sunny_service sunny_dataURL commitChanges_frame Let_def)
  show ?thesis
    using commit_clears_transient_state
      [of fullyPrepared sunnyWorld "''sepia''" "[]" imageA "''b''" "layers fullyPrepared"
          "\<lparr>additionalPrompt_panel = ''keep the shadow''\<rparr>"]
      fullyPrepared_succeeds fullyPrepared_crop_succeeds del s2 pn
    by (simp add: editOutcome_def fullyPrepared_fields)
qed

text \<open>
  The claim as stated fails for the filter: with image A uploaded, the instruction
  typed and the hotspot clicked, applying a filter goes through and commits a second
  snapshot, and the hotspot and the instruction are still there.
\<close>

theorem filter_commit_keeps_hotspot_counterexample:
  "succeeded (handleApplyFilter sunnyWorld retouchReady ''sepia'' [])
   \<and> length (history (handleApplyFilter sunnyWorld retouchReady ''sepia'' [])) = 2
   \<and> historyIndex (handleApplyFilter sunnyWorld retouchReady ''sepia'' []) = 1
   \<and> editHotspot (handleApplyFilter sunnyWorld retouchReady ''sepia'' []) = Some (120, 80)
   \<and> displayHotspot (handleApplyFilter sunnyWorld retouchReady ''sepia'' []) = Some (120, 80)
   \<and> prompt (handleApplyFilter sunnyWorld retouchReady ''sepia'' []) = ''remove object''"
  by (simp add: succeeded_def handleApplyFilter_def retouchReady_activeLayer
      retouchReady_fields uploadedA_layers sunny_service sunny_dataURL commitChanges_frame
      commitChanges_history commitChanges_historyIndex slice0_def Let_def)

section \<open>C8: a crop selection of width zero\<close>

lemma cropReady_fields:
  "completedCrop cropReady = Some zeroWidthCrop"
  "flattenedImageForCropUrl cropReady = Some ''data:image/png;base64,blob:A.png+''"
  "activeLayer cropReady = Some (hd (layers uploadedA))"
  "layers cropReady = layers uploadedA"
  "history cropReady = history uploadedA"
  "historyIndex cropReady = 0"
  "error cropReady = None"
  "isLoading cropReady = False"
  by (simp_all add: cropReady_def cropTabEffect_def flattenLayersForCrop_def activeLayer_def
      uploadedA_layers sunnyWorld_def drawnSources_def uploadedA_def handleImageUpload_def
      initialState_def imageA_def imageFile_def Let_def)

text \<open>
  The validation of the crop handler of the multi-layer editor looks at the presence of
  a completed selection, of the flattened composite and of an active layer, not at the
  size of the selection: with the three present, its validation message is never the
  result.
\<close>

lemma crop_validation_ignores_size:
  assumes "completedCrop s = Some cc" and "flattenedImageForCropUrl s = Some url"
    and "url \<noteq> []" and "activeLayer s = Some al"
  shows "error (handleApplyCrop w s) \<noteq> Some msg_crop_select_first"
proof -
  have "msg_crop_failed @ m \<noteq> msg_crop_select_first" for m
    by (simp add: msg_crop_failed_def msg_crop_select_first_def)
  then show ?thesis
    using assms
    by (simp add: handleApplyCrop_def caught_def commitChanges_frame Let_def
        split: option.splits sum.splits)
qed

text \<open>
  The crop handler of the single-image editor has the check: a selection of width or
  height zero on a displayed image is answered with the message that the area is
  too small, and nothing else changes.
\<close>

lemma flat_crop_rejects_empty_selection:
  assumes "completedCropF s = Some cc" and "imgRef w = Some img"
    and "nth_js (historyF s) (historyIndexF s) = Some currentImage"
    and "width_crop cc = 0 \<or> height_crop cc = 0"
    and "width_img img \<noteq> 0" and "height_img img \<noteq> 0"
  shows "handleApplyCropF w s = s\<lparr>errorF := Some msg_crop_too_small\<rparr>"
  using assms
  by (auto simp: handleApplyCropF_def divide_js_def times_js_def Let_def)

text \<open>
  Claim C8 at a concrete input: image A uploaded, the crop tab opened, a selection of
  width zero completed, and the crop applied. The handler does not stop at its
  validation. With a canvas that encodes an empty bitmap as \<^verbatim>\<open>data:,\<close> the busy
  flag is raised, the canvas is drawn and encoded, and the handler ends in its catch
  block, with the failure text of the crop and the parser's message, for the one reason
  that this encoding has no MIME type. With a canvas whose encoding parses, the same
  call commits a second snapshot holding the single layer "Cropped Image".
\<close>

theorem zero_width_crop_runs_the_pipeline:
  "width_crop zeroWidthCrop = 0
   \<and> handleApplyCrop emptyCanvasWorld cropReady =
        cropReady\<lparr>error := Some (msg_crop_failed @ '' Could not parse MIME type from data URL''),
                  isLoading := False\<rparr>
   \<and> error (handleApplyCrop emptyCanvasWorld cropReady) \<noteq> Some msg_crop_select_first
   \<and> succeeded (handleApplyCrop sunnyWorld cropReady)
   \<and> length (history (handleApplyCrop sunnyWorld cropReady)) = 2
   \<and> historyIndex (handleApplyCrop sunnyWorld cropReady) = 1
   \<and> map name (layers (handleApplyCrop sunnyWorld cropReady)) = [''Cropped Image'']"
proof -
  have li: "loadImage emptyCanvasWorld u = Some \<lparr>naturalWidth = 640, naturalHeight = 480,
                                width_img = 320, height_img = 240\<rparr>"
     "loadImage sunnyWorld u = Some \<lparr>naturalWidth = 640, naturalHeight = 480,
                                width_img = 320, height_img = 240\<rparr>" for u
    by (simp_all add: sunnyWorld_def emptyCanvasWorld_def)
  have ctx: "getContext2d emptyCanvasWorld" "getContext2d sunnyWorld"
    by (simp_all add: sunnyWorld_def emptyCanvasWorld_def)
  have empty: "toDataURL emptyCanvasWorld
      \<lparr>width_canvas = 0, height_canvas = ch, drawCalls = ds\<rparr> = ''data:,''" for ch ds
    by (simp add: emptyCanvasWorld_def)
  have parse: "dataURLtoFile emptyCanvasWorld ''data:,'' n =
      Inl (ErrorObj ''Could not parse MIME type from data URL'')" for n
    by (simp add: dataURLtoFile_def Let_def)
  have sunny: "dataURLtoFile sunnyWorld (toDataURL sunnyWorld
      \<lparr>width_canvas = cw, height_canvas = ch,
       drawCalls = [DrawImage ''data:image/png;base64,blob:A.png+'' 1 args]\<rparr>) n =
     Inr \<lparr>fileRef = 99, fileBits = ''data:image/png;base64'', fileName = n,
          fileType = ''image/png''\<rparr>" for cw ch args n
    by (simp add: dataURLtoFile_def sunnyWorld_def drawnSources_def fileTypeOf_png Let_def)
  have a: "handleApplyCrop emptyCanvasWorld cropReady =
        cropReady\<lparr>error := Some (msg_crop_failed @ '' Could not parse MIME type from data URL''),
                  isLoading := False\<rparr>"
    by (simp add: handleApplyCrop_def cropReady_fields li ctx zeroWidthCrop_def divide_js_def
        times_js_def canvasDimension_def empty parse caught_busy errorMessage_def Let_def)
  have b: "error (handleApplyCrop emptyCanvasWorld cropReady) \<noteq> Some msg_crop_select_first"
    using crop_validation_ignores_size
      [OF cropReady_fields(1) cropReady_fields(2) _ cropReady_fields(3)] by simp
  have c: "succeeded (handleApplyCrop sunnyWorld cropReady)
   \<and> length (history (handleApplyCrop sunnyWorld cropReady)) = 2
   \<and> historyIndex (handleApplyCrop sunnyWorld cropReady) = 1
   \<and> map name (layers (handleApplyCrop sunnyWorld cropReady)) = [''Cropped Image'']"
    by (simp add: succeeded_def handleApplyCrop_def cropReady_fields li ctx sunny
        commitChanges_frame commitChanges_history commitChanges_historyIndex
        commitChanges_layers uploadedA_layers slice0_def Let_def)
  from a b c show ?thesis by (simp add: zeroWidthCrop_def)
qed

section \<open>C1: undoing every edit restores the upload\<close>

lemma undoTimes_to_start:
  "historyIndex s = int n \<Longrightarrow> n < length (history s) \<Longrightarrow> (n = 0 \<longrightarrow> layers s = history s ! 0)
   \<Longrightarrow> undoTimes n s = Some (s\<lparr>historyIndex := 0, layers := history s ! 0\<rparr>)"
proof (induction n arbitrary: s)
  case 0
  then show ?case by simp
next
  case (Suc n)
  let ?s1 = "s\<lparr>historyIndex := int n, layers := history s ! n\<rparr>"
  have u: "handleUndo s = Some ?s1"
    using Suc.prems by (simp add: handleUndo_def canUndo_def nth_js_def Let_def)
  have "undoTimes n ?s1 = Some (?s1\<lparr>historyIndex := 0, layers := history ?s1 ! 0\<rparr>)"
    using Suc.prems by (intro Suc.IH) auto
  with u show ?case by simp
qed

lemma committed_grows:
  assumes "committed s s'" and "historyIndex s = int k" and "length (history s) = Suc k"
  shows "historyIndex s' = int (Suc k) \<and> length (history s') = Suc (Suc k)
       \<and> history s' ! 0 = history s ! 0"
proof -
  have "slice0 (history s) (historyIndex s + 1) = history s"
    using assms(2,3) by (simp add: slice0_def)
  then have h: "history s' = history s @ [layers s']"
    and i: "historyIndex s' = int (length (history s')) - 1"
    using assms(1) by (simp_all add: committed_def)
  from h i assms(3) show ?thesis by (simp add: nth_append)
qed

lemma editChain_grows:
  "editChain s edits \<Longrightarrow> historyIndex s = int k \<Longrightarrow> length (history s) = Suc k
   \<Longrightarrow> historyIndex (last (s # edits)) = int (k + length edits)
     \<and> length (history (last (s # edits))) = Suc (k + length edits)
     \<and> history (last (s # edits)) ! 0 = history s ! 0"
proof (induction edits arbitrary: s k)
  case Nil
  then show ?case by simp
next
  case (Cons s' rest)
  from Cons.prems have c: "committed s s'" and r: "editChain s' rest" by simp_all
  from committed_grows [OF c Cons.prems(2,3)]
  have g: "historyIndex s' = int (Suc k)" "length (history s') = Suc (Suc k)"
    "history s' ! 0 = history s ! 0" by simp_all
  from Cons.IH [OF r g(1) g(2)] g(3) show ?case by simp
qed

lemma handleImageUpload_content:
  "layers (handleImageUpload w s f) =
     [\<lparr>id_layer = ''layer-'' @ decimal (now w), file_layer = f,
       objectUrl = createObjectURL w f, name = ''Background'', opacity = 100,
       isVisible = True\<rparr>]"
  "history (handleImageUpload w s f) = [layers (handleImageUpload w s f)]"
  "historyIndex (handleImageUpload w s f) = 0"
  by (simp_all add: handleImageUpload_def Let_def)

text \<open>
  Claim C1. Start from the upload of a file \<open>f\<close> and let \<open>edits\<close> be the states
  after N committed edits in a row, each having committed a snapshot on top of the one
  before. Then N undos from the last state all return, and the state they end in
  differs from the last one in the cursor, now 0, and the layers, now those of the
  upload; these are \<open>history[0]\<close>, a single layer holding \<open>f\<close>.
\<close>

theorem undo_all_edits_restores_upload:
  assumes "editChain (handleImageUpload w s0 f) edits"
  shows "undoTimes (length edits) (last (handleImageUpload w s0 f # edits)) =
           Some ((last (handleImageUpload w s0 f # edits))
                   \<lparr>historyIndex := 0, layers := layers (handleImageUpload w s0 f)\<rparr>)
       \<and> history (last (handleImageUpload w s0 f # edits)) ! 0 = layers (handleImageUpload w s0 f)
       \<and> map file_layer (layers (handleImageUpload w s0 f)) = [f]"
proof -
  let ?u = "handleImageUpload w s0 f" and ?e = "last (handleImageUpload w s0 f # edits)"
  have g: "historyIndex ?e = int (length edits)" "length (history ?e) = Suc (length edits)"
    "history ?e ! 0 = layers ?u"
    using editChain_grows [OF assms, of 0] by (simp_all add: handleImageUpload_content)
  have z: "length edits = 0 \<longrightarrow> layers ?e = history ?e ! 0"
    using g(3) by (auto simp: handleImageUpload_content)
  have "undoTimes (length edits) ?e = Some (?e\<lparr>historyIndex := 0, layers := history ?e ! 0\<rparr>)"
    using g(1,2) z by (intro undoTimes_to_start) simp_all
  with g(3) show ?thesis by (simp add: handleImageUpload_content)
qed

lemma cropTabEffect_idle:
  "activeTab s \<noteq> CropTab \<Longrightarrow> flattenedImageForCropUrl s = None \<Longrightarrow> cropTabEffect w s = s"
  by (simp add: cropTabEffect_def)

lemma uploadedA_idle:
  "activeTab uploadedA = Retouch" "flattenedImageForCropUrl uploadedA = None"
  by (simp_all add: uploadedA_def handleImageUpload_def initialState_def Let_def)

lemma retouchReady_idle:
  "activeTab retouchReady = Retouch" "flattenedImageForCropUrl retouchReady = None"
  by (simp_all add: retouchReady_def handleImageClick_def uploadedA_idle)

text \<open>
  The scenario of the specification: image A is uploaded, the instruction "remove
  object" typed, the hotspot (120, 80) clicked, and the retouch applied. The history
  then has 2 snapshots and the cursor is 1; one undo puts layer "Background" with file
  A, opacity 100 and visible, back on display.
\<close>

lemma scenario_to_retouchReady:
  "run [(sunnyWorld, ImageUpload imageA), (sunnyWorld, SetPrompt ''remove object''),
        (sunnyWorld, ImageClick (120, 80))] (initialState None) = Some retouchReady"
proof -
  have 1: "step sunnyWorld (ImageUpload imageA) (initialState None) = Some uploadedA"
    by (simp add: step_def cropTabEffect_idle uploadedA_idle uploadedA_def [symmetric])
  have 2: "step sunnyWorld (SetPrompt ''remove object'') uploadedA =
      Some (uploadedA\<lparr>prompt := ''remove object''\<rparr>)"
    by (simp add: step_def cropTabEffect_idle uploadedA_idle)
  have 3: "step sunnyWorld (ImageClick (120, 80)) (uploadedA\<lparr>prompt := ''remove object''\<rparr>) =
      Some retouchReady"
    by (simp add: step_def cropTabEffect_idle uploadedA_idle retouchReady_def
        handleImageClick_def)
  from 1 2 3 show ?thesis by simp
qed

lemma retouch_of_A:
  "handleGenerate sunnyWorld retouchReady =
     (commitChanges (retouchReady\<lparr>isLoading := True, error := None\<rparr>)
        [(hd (layers uploadedA))
           \<lparr>file_layer := \<lparr>fileRef = 99, fileBits = ''QUJD'', fileName = ''edited-1000.png'',
                           fileType = ''image/png''\<rparr>,
            objectUrl := ''blob:edited-1000.png''\<rparr>] True)
       \<lparr>prompt := [], editHotspot := None, displayHotspot := None, isLoading := False\<rparr>"
proof -
  have d: "decimal 1000 = ''1000''" by code_simp
  have n: "now sunnyWorld = 1000" "createObjectURL sunnyWorld f = ''blob:'' @ fileName f" for f
    by (simp_all add: sunnyWorld_def)
  show ?thesis
    by (simp add: handleGenerate_def retouchReady_activeLayer retouchReady_fields
        trim_remove_object sunny_service sunny_dataURL updatedLayers_def uploadedA_layers
        n d Let_def)
qed

theorem undo_all_edits_restores_upload_witness:
  "run [(sunnyWorld, ImageUpload imageA), (sunnyWorld, SetPrompt ''remove object''),
        (sunnyWorld, ImageClick (120, 80))] (initialState None) = Some retouchReady
   \<and> step sunnyWorld Generate retouchReady = Some (handleGenerate sunnyWorld retouchReady)
   \<and> editChain (handleImageUpload sunnyWorld (initialState None) imageA)
        [handleGenerate sunnyWorld retouchReady]
   \<and> length (history (handleGenerate sunnyWorld retouchReady)) = 2
   \<and> historyIndex (handleGenerate sunnyWorld retouchReady) = 1
   \<and> map file_layer (layers (handleGenerate sunnyWorld retouchReady)) \<noteq> [imageA]
   \<and> handleUndo (handleGenerate sunnyWorld retouchReady) =
        Some ((handleGenerate sunnyWorld retouchReady)
                \<lparr>historyIndex := 0, layers := layers uploadedA\<rparr>)
   \<and> map file_layer (layers uploadedA) = [imageA]
   \<and> map name (layers uploadedA) = [''Background'']
   \<and> map opacity (layers uploadedA) = [100]
   \<and> map isVisible (layers uploadedA) = [True]"
proof -
  let ?r = "handleGenerate sunnyWorld retouchReady"
  have idle: "activeTab ?r = Retouch" "flattenedImageForCropUrl ?r = None"
    unfolding retouch_of_A by (simp_all add: commitChanges_frame retouchReady_idle)
  have st: "step sunnyWorld Generate retouchReady = Some ?r"
    by (simp add: step_def cropTabEffect_idle idle)
  have h: "history ?r = history uploadedA @ [layers ?r]" "historyIndex ?r = 1"
    by (simp_all add: retouch_of_A commitChanges_history commitChanges_historyIndex
        commitChanges_layers retouchReady_fields uploadedA_layers slice0_def)
  have chain: "editChain (handleImageUpload sunnyWorld (initialState None) imageA) [?r]"
    using h by (simp add: committed_def uploadedA_def [symmetric] uploadedA_layers slice0_def)
  have ne: "map file_layer (layers ?r) \<noteq> [imageA]"
    by (simp add: retouch_of_A commitChanges_layers imageA_def imageFile_def)
  have u: "handleUndo ?r = Some (?r\<lparr>historyIndex := 0, layers := layers uploadedA\<rparr>)"
    using undo_all_edits_restores_upload [OF chain]
    by (simp add: uploadedA_def [symmetric] split: option.splits)
  from scenario_to_retouchReady st chain h ne u show ?thesis
    by (simp add: uploadedA_layers)
qed

section \<open>C5: the layers on display and the history\<close>

lemma nth_js_last: "nth_js (xs @ [x]) (int (length xs)) = Some x"
  by (simp add: nth_js_def)

lemma committed_consistent: "committed s s' \<Longrightarrow> consistent s'"
  by (simp add: committed_def consistent_def nth_js_def nth_append)

lemma edit_content: "editOutcome b s s' \<Longrightarrow> contentUnchanged s s' \<or> committed s s'"
  by (simp add: editOutcome_def split: if_splits)

lemma handleGenerate_outcome: "editOutcome True s (handleGenerate w s)"
  using handleGenerate_shape [of w s] by (auto simp: outcome_shapes)

lemma handleApplyFilter_outcome: "editOutcome False s (handleApplyFilter w s p q)"
  using handleApplyFilter_shape [of w s p q] by (auto simp: outcome_shapes)

lemma handleApplyAdjustment_outcome: "editOutcome False s (handleApplyAdjustment w s p q)"
  using handleApplyAdjustment_shape [of w s p q] by (auto simp: outcome_shapes)

lemma handleApplyFaceSwap_outcome: "editOutcome False s (handleApplyFaceSwap w s)"
  using handleApplyFaceSwap_shape [of w s] by (auto simp: outcome_shapes)

lemma handleRemoveBackground_outcome: "editOutcome False s (handleRemoveBackground w s q)"
  using handleRemoveBackground_shape [of w s q] by (auto simp: outcome_shapes)

lemma handleApplyCrop_outcome: "editOutcome False s (handleApplyCrop w s)"
  using handleApplyCrop_shape [of w s] by (auto simp: outcome_shapes)

lemma handleLayerOpacityChange_erased:
  "map eraseOpacity (layers (handleLayerOpacityChange s i v)) = map eraseOpacity (layers s)"
proof -
  have "map eraseOpacity (map (\<lambda>l. if id_layer l = i then l\<lparr>opacity := v\<rparr> else l) ls) =
        map eraseOpacity ls" for ls
    by (induction ls) (simp_all add: eraseOpacity_def)
  then show ?thesis
    by (simp add: handleLayerOpacityChange_def commitChanges_layers)
qed

text \<open>What one handler call can do to layers, history and cursor.\<close>

lemma handle_content:
  assumes "handle w a s = Some s'"
  shows "contentUnchanged s s' \<or> committed s s' \<or> resetToEmpty s' \<or> startedAnew s'
       \<or> cursorMoved s s' \<or> (isOpacityChange a \<and> opacityOnly s s')"
proof (cases a)
  case (ImageUpload f)
  with assms show ?thesis
    by (auto simp: startedAnew_def handleImageUpload_content)
next
  case (AddLayer f)
  with assms show ?thesis
    by (auto simp: handleAddLayer_def startedAnew_def handleImageUpload_content store_commit
        Let_def)
next
  case Generate
  with assms edit_content [OF handleGenerate_outcome [of s w]] show ?thesis by auto
next
  case (ApplyFilter p q)
  with assms edit_content [OF handleApplyFilter_outcome [of s w p q]] show ?thesis by auto
next
  case (ApplyAdjustment p q)
  with assms edit_content [OF handleApplyAdjustment_outcome [of s w p q]] show ?thesis by auto
next
  case ApplyFaceSwap
  with assms edit_content [OF handleApplyFaceSwap_outcome [of s w]] show ?thesis by auto
next
  case (RemoveBackground q)
  with assms edit_content [OF handleRemoveBackground_outcome [of s w q]] show ?thesis by auto
next
  case ApplyCrop
  with assms edit_content [OF handleApplyCrop_outcome [of s w]] show ?thesis by auto
next
  case Undo
  with assms show ?thesis
    by (auto simp: handleUndo_def cursorMoved_def contentUnchanged_def Let_def
        split: if_splits)
next
  case Redo
  with assms show ?thesis
    by (auto simp: handleRedo_def cursorMoved_def contentUnchanged_def Let_def
        split: if_splits)
next
  case (DeleteLayer i)
  with assms show ?thesis
    by (auto simp: handleDeleteLayer_def resetToEmpty_def store_commit Let_def)
next
  case (ReorderLayers ls)
  with assms show ?thesis
    by (auto simp: handleReorderLayers_def store_commit)
next
  case (LayerOpacityChange i v)
  with assms show ?thesis
    by (auto simp: opacityOnly_def handleLayerOpacityChange_history
        handleLayerOpacityChange_erased)
next
  case CommitOpacityChange
  with assms show ?thesis
    by (auto simp: committed_def commitOpacityChange_def Let_def)
next
  case (LayerVisibilityChange i)
  with assms show ?thesis
    by (auto simp: handleLayerVisibilityChange_def store_commit)
next
  case (ImageClick p)
  with assms show ?thesis
    by (auto simp: handleImageClick_def contentUnchanged_def)
qed (use assms in \<open>auto simp: contentUnchanged_def\<close>)

lemma cropTabEffect_content:
  "layers (cropTabEffect w s) = layers s"
  "history (cropTabEffect w s) = history s"
  "historyIndex (cropTabEffect w s) = historyIndex s"
  by (simp_all add: cropTabEffect_def split: outcome.splits)

lemma step_content:
  assumes "step w a s = Some s'"
  shows "contentUnchanged s s' \<or> committed s s' \<or> resetToEmpty s' \<or> startedAnew s'
       \<or> cursorMoved s s' \<or> (isOpacityChange a \<and> opacityOnly s s')"
proof -
  from assms obtain t where t: "handle w a s = Some t" and s': "s' = cropTabEffect w t"
    by (auto simp: step_def)
  from handle_content [OF t] show ?thesis
    unfolding s'
    by (simp add: contentUnchanged_def committed_def resetToEmpty_def startedAnew_def
        cursorMoved_def opacityOnly_def cropTabEffect_content)
qed

lemma consistent_imp_upToOpacity: "consistent s \<Longrightarrow> consistentUpToOpacity s"
  by (auto simp: consistent_def consistentUpToOpacity_def)

lemma changed_content_consistent:
  assumes "committed s s' \<or> resetToEmpty s' \<or> startedAnew s' \<or> cursorMoved s s'"
  shows "consistent s'"
  using assms
proof (elim disjE)
  assume "committed s s'"
  then show ?thesis by (rule committed_consistent)
next
  assume "resetToEmpty s'"
  then show ?thesis by (simp add: resetToEmpty_def consistent_def)
next
  assume "startedAnew s'"
  then show ?thesis by (simp add: startedAnew_def consistent_def nth_js_def)
next
  assume "cursorMoved s s'"
  then show ?thesis by (auto simp: cursorMoved_def consistent_def)
qed

lemma step_consistent_after_change:
  assumes "step w a s = Some s'"
    and "history s' \<noteq> history s \<or> historyIndex s' \<noteq> historyIndex s"
  shows "consistent s'"
proof -
  from step_content [OF assms(1)] assms(2)
  have "committed s s' \<or> resetToEmpty s' \<or> startedAnew s' \<or> cursorMoved s s'"
    by (auto simp: contentUnchanged_def opacityOnly_def)
  then show ?thesis by (rule changed_content_consistent)
qed

lemma step_history:
  assumes "step w a s = Some s'"
  shows "history s' = history s
       \<or> history s' = slice0 (history s) (historyIndex s + 1) @ [layers s']
       \<or> history s' = [] \<or> history s' = [layers s']"
  using step_content [OF assms]
  by (auto simp: contentUnchanged_def committed_def resetToEmpty_def startedAnew_def
      cursorMoved_def opacityOnly_def)

lemma step_preserves_upToOpacity:
  assumes "consistentUpToOpacity s" and "step w a s = Some s'"
  shows "consistentUpToOpacity s'"
proof (cases "history s' \<noteq> history s \<or> historyIndex s' \<noteq> historyIndex s")
  case True
  with assms(2) show ?thesis
    by (intro consistent_imp_upToOpacity step_consistent_after_change)
next
  case False
  then have same: "history s' = history s" "historyIndex s' = historyIndex s" by simp_all
  have e: "map eraseOpacity (layers s') = map eraseOpacity (layers s) \<or> consistent s'"
    using step_content [OF assms(2)] changed_content_consistent [of s s']
    by (auto simp: contentUnchanged_def opacityOnly_def)
  then show ?thesis
  proof
    assume "map eraseOpacity (layers s') = map eraseOpacity (layers s)"
    moreover have "layers s = [] \<longleftrightarrow> map eraseOpacity (layers s) = []" by simp
    moreover have "layers s' = [] \<longleftrightarrow> map eraseOpacity (layers s') = []" by simp
    ultimately show ?thesis
      using assms(1) same unfolding consistentUpToOpacity_def by (auto split: option.splits)
  next
    assume "consistent s'"
    then show ?thesis by (rule consistent_imp_upToOpacity)
  qed
qed

lemma step_preserves_consistent:
  assumes "consistent s" and "\<not> isOpacityChange a" and "step w a s = Some s'"
  shows "consistent s'"
proof (cases "history s' \<noteq> history s \<or> historyIndex s' \<noteq> historyIndex s")
  case True
  with assms(3) show ?thesis by (rule step_consistent_after_change)
next
  case False
  then have same: "history s' = history s" "historyIndex s' = historyIndex s" by simp_all
  have "layers s' = layers s \<or> consistent s'"
    using step_content [OF assms(3)] assms(2) changed_content_consistent [of s s']
    by (auto simp: contentUnchanged_def)
  then show ?thesis
    using assms(1) same by (auto simp: consistent_def)
qed

lemma step_returns:
  assumes "consistentUpToOpacity s"
  shows "step w a s \<noteq> None"
proof -
  have range: "historyIndex s = - 1 \<or> (0 \<le> historyIndex s \<and> historyIndex s < int (length (history s)))"
    using assms
    by (auto simp: consistentUpToOpacity_def nth_js_def split: option.splits if_splits)
  have "handleUndo s \<noteq> None"
    using range by (auto simp: handleUndo_def canUndo_def nth_js_def Let_def)
  moreover have "handleRedo s \<noteq> None"
    using range by (auto simp: handleRedo_def canRedo_def nth_js_def Let_def)
  ultimately show ?thesis
    by (cases a) (simp_all add: step_def)
qed

lemma run_invariant:
  "consistentUpToOpacity s \<Longrightarrow>
   \<exists>s'. run acts s = Some s' \<and> consistentUpToOpacity s'
      \<and> (consistent s \<and> (\<forall>(w, a) \<in> set acts. \<not> isOpacityChange a) \<longrightarrow> consistent s')"
proof (induction acts arbitrary: s)
  case Nil
  then show ?case by simp
next
  case (Cons wa acts)
  obtain w a where wa: "wa = (w, a)" by (cases wa)
  from step_returns [OF Cons.prems, of w a] obtain t where t: "step w a s = Some t" by auto
  have cuo: "consistentUpToOpacity t" using Cons.prems t by (rule step_preserves_upToOpacity)
  from Cons.IH [OF cuo] obtain s' where s': "run acts t = Some s'"
    "consistentUpToOpacity s'"
    "consistent t \<and> (\<forall>(w, a) \<in> set acts. \<not> isOpacityChange a) \<longrightarrow> consistent s'"
    by auto
  have "consistent s \<and> (\<forall>(w, a) \<in> set (wa # acts). \<not> isOpacityChange a) \<longrightarrow> consistent s'"
    using s'(3) step_preserves_consistent [of s a w t] t wa by auto
  with s'(1,2) t wa show ?case by simp
qed

lemma initial_consistent: "consistent (initialState saved)"
  by (simp add: consistent_def initialState_def)

lemma find_own_id:
  "distinct (map f xs) \<Longrightarrow> x \<in> set xs \<Longrightarrow> find (\<lambda>y. f y = f x) xs = Some x"
proof (induction xs)
  case Nil
  then show ?case by simp
next
  case (Cons y ys)
  show ?case
  proof (cases "x = y")
    case True
    then show ?thesis by simp
  next
    case False
    with Cons.prems have "x \<in> set ys" and "f y \<noteq> f x" by (auto simp: image_iff)
    with Cons show ?thesis by simp
  qed
qed

lemma opacity_change_revokes_nothing:
  assumes "distinct (map id_layer ls)"
  shows "replacedUrls ls (map (\<lambda>l. if id_layer l = i then l\<lparr>opacity := v\<rparr> else l) ls) = []"
proof -
  have "(case find (\<lambda>y. id_layer y = id_layer (if id_layer l = i then l\<lparr>opacity := v\<rparr> else l)) ls of
          Some oldLayer \<Rightarrow>
            if file_layer oldLayer \<noteq> file_layer (if id_layer l = i then l\<lparr>opacity := v\<rparr> else l)
            then [objectUrl oldLayer] else []
        | None \<Rightarrow> []) = []" if "l \<in> set ls" for l
    using find_own_id [OF assms that] by auto
  then show ?thesis
    by (simp add: replacedUrls_def comp_def)
qed

lemma handleLayerOpacityChange_cells:
  "handleLayerOpacityChange s i v =
     s\<lparr>revokedUrls := revokedUrls s @ replacedUrls (layers s)
          (map (\<lambda>l. if id_layer l = i then l\<lparr>opacity := v\<rparr> else l) (layers s)),
       layers := map (\<lambda>l. if id_layer l = i then l\<lparr>opacity := v\<rparr> else l) (layers s),
       crop := None, completedCrop := None, secondaryImage := None,
       additionalPrompt := [], retouchScale := 100\<rparr>"
  by (simp add: handleLayerOpacityChange_def commitChanges_def Let_def)

text \<open>
  Claim C5, amended. From the empty editor every sequence of operations runs through
  (no undo or redo reads outside the history), and in the state it ends in either
  there is no snapshot (history empty, cursor \<open>-1\<close>, no layers) or the layers on
  display are \<open>history[cursor]\<close> up to the opacity of the layers; when no opacity
  change is among the operations they are \<open>history[cursor]\<close> exactly. An opacity
  change leaves history and cursor as they are; on display it sets the opacity of
  the layers with the given id and changes the layers in nothing else. Going through
  \<open>commitChanges\<close>, it also clears the crop selection, the completed crop, the
  secondary image and the auxiliary instruction and resets the scale to 100; these
  cells, the layers and the log of revoked URLs (to which nothing is added when the ids
  are distinct) are all it changes. So the equality with \<open>history[cursor]\<close> is lost
  until an operation changes the history or moves the cursor: every such operation
  ends with the layers on display equal to \<open>history[cursor]\<close>. No operation alters a
  recorded snapshot: the history after an operation is the one before, or the one
  before cut after the cursor with the new layers appended, or empty, or the single
  snapshot of a new upload.
\<close>

theorem displayed_layers_follow_history:
  "(\<exists>s. run acts (initialState saved) = Some s \<and> consistentUpToOpacity s
        \<and> ((\<forall>(w, a) \<in> set acts. \<not> isOpacityChange a) \<longrightarrow> consistent s))
   \<and> (step w a s = Some s' \<and> (history s' \<noteq> history s \<or> historyIndex s' \<noteq> historyIndex s)
        \<longrightarrow> consistent s')
   \<and> (step w a s = Some s' \<longrightarrow>
        history s' = history s
      \<or> history s' = slice0 (history s) (historyIndex s + 1) @ [layers s']
      \<or> history s' = [] \<or> history s' = [layers s'])
   \<and> history (handleLayerOpacityChange s i v) = history s
   \<and> historyIndex (handleLayerOpacityChange s i v) = historyIndex s
   \<and> map eraseOpacity (layers (handleLayerOpacityChange s i v)) = map eraseOpacity (layers s)
   \<and> handleLayerOpacityChange s i v =
        s\<lparr>revokedUrls := revokedUrls s @ replacedUrls (layers s)
             (map (\<lambda>l. if id_layer l = i then l\<lparr>opacity := v\<rparr> else l) (layers s)),
          layers := map (\<lambda>l. if id_layer l = i then l\<lparr>opacity := v\<rparr> else l) (layers s),
          crop := None, completedCrop := None, secondaryImage := None,
          additionalPrompt := [], retouchScale := 100\<rparr>
   \<and> (distinct (map id_layer (layers s)) \<longrightarrow>
        replacedUrls (layers s)
          (map (\<lambda>l. if id_layer l = i then l\<lparr>opacity := v\<rparr> else l) (layers s)) = [])"
proof -
  have run: "\<exists>s. run acts (initialState saved) = Some s \<and> consistentUpToOpacity s
        \<and> ((\<forall>(w, a) \<in> set acts. \<not> isOpacityChange a) \<longrightarrow> consistent s)"
    using run_invariant [where s = "initialState saved" and acts = acts]
      consistent_imp_upToOpacity [OF initial_consistent [of saved]]
      initial_consistent [of saved] by auto
  have change: "step w a s = Some s' \<and> (history s' \<noteq> history s \<or> historyIndex s' \<noteq> historyIndex s)
        \<longrightarrow> consistent s'"
    using step_consistent_after_change [of w a s s'] by blast
  have hist: "step w a s = Some s' \<longrightarrow>
        history s' = history s
      \<or> history s' = slice0 (history s) (historyIndex s + 1) @ [layers s']
      \<or> history s' = [] \<or> history s' = [layers s']"
    using step_history [of w a s s'] by blast
  have op: "history (handleLayerOpacityChange s i v) = history s
   \<and> historyIndex (handleLayerOpacityChange s i v) = historyIndex s
   \<and> map eraseOpacity (layers (handleLayerOpacityChange s i v)) = map eraseOpacity (layers s)"
    by (simp add: handleLayerOpacityChange_history handleLayerOpacityChange_erased)
  have cells: "handleLayerOpacityChange s i v =
        s\<lparr>revokedUrls := revokedUrls s @ replacedUrls (layers s)
             (map (\<lambda>l. if id_layer l = i then l\<lparr>opacity := v\<rparr> else l) (layers s)),
          layers := map (\<lambda>l. if id_layer l = i then l\<lparr>opacity := v\<rparr> else l) (layers s),
          crop := None, completedCrop := None, secondaryImage := None,
          additionalPrompt := [], retouchScale := 100\<rparr>"
    by (rule handleLayerOpacityChange_cells)
  have rev: "distinct (map id_layer (layers s)) \<longrightarrow>
        replacedUrls (layers s)
          (map (\<lambda>l. if id_layer l = i then l\<lparr>opacity := v\<rparr> else l) (layers s)) = []"
    using opacity_change_revokes_nothing [of "layers s" i v] by blast
  from run change hist op cells rev show ?thesis by blast
qed

lemma decimal_1000: "decimal 1000 = ''1000''"
  by code_simp

lemma undo_threeLayers: "step sunnyWorld Undo threeLayers = Some afterOneUndo"
proof -
  have "handleUndo threeLayers = Some afterOneUndo"
    by (simp add: handleUndo_def canUndo_def nth_js_def afterOneUndo_def threeLayers_def
        initialState_def Let_def)
  moreover have "cropTabEffect sunnyWorld afterOneUndo = afterOneUndo"
    by (rule cropTabEffect_idle)
      (simp_all add: afterOneUndo_def threeLayers_def initialState_def)
  ultimately show ?thesis by (simp add: step_def)
qed

theorem displayed_layers_follow_history_witness:
  "map (\<lambda>(w, a). isOpacityChange a)
       [(sunnyWorld, ImageUpload imageA), (sunnyWorld, SetPrompt ''remove object''),
        (sunnyWorld, ImageClick (120, 80))] = [False, False, False]
   \<and> run [(sunnyWorld, ImageUpload imageA), (sunnyWorld, SetPrompt ''remove object''),
        (sunnyWorld, ImageClick (120, 80))] (initialState None) = Some retouchReady
   \<and> consistent retouchReady
   \<and> step sunnyWorld Undo threeLayers = Some afterOneUndo
   \<and> historyIndex afterOneUndo \<noteq> historyIndex threeLayers
   \<and> history afterOneUndo = history threeLayers
   \<and> consistent afterOneUndo
   \<and> distinct (map id_layer (layers threeLayers))
   \<and> map opacity (layers (handleLayerOpacityChange threeLayers ''b'' 40)) = [100, 40, 100]
   \<and> revokedUrls (handleLayerOpacityChange threeLayers ''b'' 40) = revokedUrls threeLayers
   \<and> retouchScale (handleLayerOpacityChange (threeLayers\<lparr>retouchScale := 120\<rparr>) ''b'' 40) = 100"
proof -
  have d: "distinct (map id_layer (layers threeLayers))"
    by (simp add: threeLayers_def initialState_def plainLayer_sel)
  have o: "map opacity (layers (handleLayerOpacityChange threeLayers ''b'' 40)) = [100, 40, 100]"
    by (simp add: handleLayerOpacityChange_def commitChanges_layers threeLayers_def
        initialState_def plainLayer_sel)
  have r: "retouchScale (handleLayerOpacityChange (threeLayers\<lparr>retouchScale := 120\<rparr>) ''b'' 40) = 100"
    by (simp add: handleLayerOpacityChange_def commitChanges_transient)
  have u: "revokedUrls (handleLayerOpacityChange threeLayers ''b'' 40) = revokedUrls threeLayers"
    using displayed_layers_follow_history
      [of "[(sunnyWorld, ImageUpload imageA), (sunnyWorld, SetPrompt ''remove object''),
            (sunnyWorld, ImageClick (120, 80))]" None sunnyWorld Undo threeLayers afterOneUndo
          "''b''" 40] d
    by simp
  have c: "consistent retouchReady \<and> consistent afterOneUndo"
    using displayed_layers_follow_history
      [of "[(sunnyWorld, ImageUpload imageA), (sunnyWorld, SetPrompt ''remove object''),
            (sunnyWorld, ImageClick (120, 80))]" None sunnyWorld Undo threeLayers afterOneUndo
          "''b''" 40]
      scenario_to_retouchReady undo_threeLayers
    by (simp add: afterOneUndo_def threeLayers_def)
  from d o r u c scenario_to_retouchReady undo_threeLayers show ?thesis
    by (simp add: afterOneUndo_def threeLayers_def)
qed

text \<open>
  The claim as stated fails after an opacity change: image A is uploaded and the
  opacity of its layer set to 40. The snapshot under the cursor still has opacity 100,
  the layer on display has 40.
\<close>

theorem opacity_change_breaks_history_equality_counterexample:
  "run [(sunnyWorld, ImageUpload imageA), (sunnyWorld, LayerOpacityChange ''layer-1000'' 40)]
       (initialState None) = Some (handleLayerOpacityChange uploadedA ''layer-1000'' 40)
   \<and> nth_js (history (handleLayerOpacityChange uploadedA ''layer-1000'' 40))
        (historyIndex (handleLayerOpacityChange uploadedA ''layer-1000'' 40))
       = Some (layers uploadedA)
   \<and> map opacity (layers uploadedA) = [100]
   \<and> map opacity (layers (handleLayerOpacityChange uploadedA ''layer-1000'' 40)) = [40]
   \<and> layers (handleLayerOpacityChange uploadedA ''layer-1000'' 40) \<noteq> layers uploadedA
   \<and> \<not> consistent (handleLayerOpacityChange uploadedA ''layer-1000'' 40)"
proof -
  let ?s = "handleLayerOpacityChange uploadedA ''layer-1000'' 40"
  have 1: "step sunnyWorld (ImageUpload imageA) (initialState None) = Some uploadedA"
    by (simp add: step_def cropTabEffect_idle uploadedA_idle uploadedA_def [symmetric])
  have idle: "activeTab ?s = Retouch" "flattenedImageForCropUrl ?s = None"
    by (simp_all add: handleLayerOpacityChange_def commitChanges_frame uploadedA_idle)
  have 2: "step sunnyWorld (LayerOpacityChange ''layer-1000'' 40) uploadedA = Some ?s"
    by (simp add: step_def cropTabEffect_idle idle)
  have h: "history ?s = [layers uploadedA]" "historyIndex ?s = 0"
    by (simp_all add: handleLayerOpacityChange_history uploadedA_layers)
  have l: "map opacity (layers ?s) = [40]"
    by (simp add: handleLayerOpacityChange_def commitChanges_layers uploadedA_layers
        decimal_1000)
  have u: "map opacity (layers uploadedA) = [100]"
    by (simp add: uploadedA_layers)
  from l u have ne: "layers ?s \<noteq> layers uploadedA" by auto
  have nc: "\<not> consistent ?s"
    using ne h by (simp add: consistent_def nth_js_def)
  from 1 2 h l u ne nc show ?thesis by (simp add: nth_js_def)
qed

end
